theory Spec2Isabelle
  imports Complex_Main "HOL-Library.AList" "HOL-Library.Char_ord" "HOL-Library.List_Lexorder"
begin

section \<open>Data model\<close>

text \<open>
  A shallow embedding of the customer-request classifier: \<^verbatim>\<open>config/settings.py\<close>,
  \<^verbatim>\<open>src/data/loader.py\<close>, \<^verbatim>\<open>src/model/trainer.py\<close>, \<^verbatim>\<open>src/model/predictor.py\<close>,
  \<^verbatim>\<open>src/api/app.py\<close> and \<^verbatim>\<open>src/api/routes.py\<close>.

  Conventions.
  \<^item> A Python \<^verbatim>\<open>str\<close> is a \<^typ>\<open>string\<close>; one \<^typ>\<open>char\<close> stands for one code point
    (all code points of the program's own literals are below 256), so \<open>length\<close> is
    Python's \<^verbatim>\<open>len\<close> and the order of \<^theory_text>\<open>List_Lexorder\<close> is Python's \<^verbatim>\<open>str\<close> order.
  \<^item> A Python \<^verbatim>\<open>float\<close> is a \<^typ>\<open>real\<close> that is a binary64 number. Each float operation
    of the repository's code gives the binary64 number nearest to the exact result
    (\<open>fl\<close>). Infinities and NaN are not modelled. The arithmetic inside the library
    (the fitted vectorizer and classifier) is exact.
  \<^item> An exception is a value \<open>Inl e\<close> of \<open>error + 'a\<close>. A method that mutates \<^verbatim>\<open>self\<close>
    or the disk returns its outcome paired with the new state.
  \<^item> The disk is a map from paths to file contents; \<^verbatim>\<open>path.exists()\<close> is \<open>fs path \<noteq> None\<close>.
  \<^item> Calls into scikit-learn, numpy and joblib are parameters of the model: the members
    of a \<open>pipeline\<close>, a \<open>joblib\<close> codec and a \<open>sklearn\<close> record.
  \<^item> The log is a list of events. Only the events that a property below refers to are
    kept, and fixed message texts are shortened and written without accents.
\<close>

datatype error =
    FileNotFoundError
  | RuntimeError
  | ValueError
  | AttributeError
  | KeyError
  | ZeroDivisionError
  | IndexError
  | NotFittedError
  | LibraryError

datatype log_event =
    Info string
  | Success string
  | Warning string
  | Warning_short_texts nat

subsection \<open>\<^verbatim>\<open>config/settings.py\<close>\<close>

record settings =
  app_name :: string
  app_version :: string
  dataset_path :: string
  model_path :: string
  test_size :: real
  random_state :: int
  tfidf_max_features :: int
  tfidf_ngram_min :: int
  tfidf_ngram_max :: int
  lr_c :: real
  lr_max_iter :: int

definition default_settings :: settings where
  "default_settings =
     \<lparr> app_name = ''PME Classifier API'',
       app_version = ''1.0.0'',
       dataset_path = ''data/raw/dataset.csv'',
       model_path = ''model/saved/classifier.joblib'',
       test_size = 2 / 10,
       random_state = 42,
       tfidf_max_features = 5000,
       tfidf_ngram_min = 1,
       tfidf_ngram_max = 2,
       lr_c = 1,
       lr_max_iter = 1000 \<rparr>"

subsection \<open>The scikit-learn pipeline object, as the repository uses it\<close>

text \<open>
  \<^verbatim>\<open>_build_pipeline\<close> fixes the hyper-parameters of the two steps; they only matter to
  the library's \<^verbatim>\<open>fit\<close>.
\<close>

record hyper =
  ngram_range :: "int \<times> int"
  max_features :: int
  sublinear_tf :: bool
  strip_accents :: string
  analyzer_kind :: string
  min_df :: int
  C :: real
  max_iter :: int
  solver :: string
  class_weight :: string

text \<open>
  The three members of a \<^verbatim>\<open>sklearn.pipeline.Pipeline\<close> that the repository reads:
  \<^verbatim>\<open>predict([t])[0]\<close>, \<^verbatim>\<open>predict_proba([t])[0]\<close> and \<^verbatim>\<open>classes_\<close>. Each may raise.
\<close>

record pipeline =
  pl_params :: hyper
  pl_predict :: "string \<Rightarrow> error + string"
  pl_predict_proba :: "string \<Rightarrow> error + real list"
  pl_classes :: "error + string list"

text \<open>\<^verbatim>\<open>joblib.dump\<close> and \<^verbatim>\<open>joblib.load\<close>, over file contents of type \<open>'b\<close>.\<close>

record 'b joblib =
  jl_dump :: "pipeline \<Rightarrow> 'b"
  jl_load :: "'b \<Rightarrow> error + pipeline"

type_synonym 'b disk = "string \<rightharpoonup> 'b"

section \<open>\<^verbatim>\<open>src/model/predictor.py\<close>\<close>

record prediction_result =
  classe :: string
  confiance :: real
  probabilites :: "(string \<times> real) list"

record predictor =
  p_pipeline :: "pipeline option"

definition Predictor_init :: predictor where
  "Predictor_init = \<lparr> p_pipeline = None \<rparr>"

text \<open>
  \<^verbatim>\<open>Predictor.load\<close>. When it raises, \<^verbatim>\<open>self\<close> has not been assigned.
\<close>

definition Predictor_load ::
  "settings \<Rightarrow> 'b joblib \<Rightarrow> 'b disk \<Rightarrow> predictor \<Rightarrow> (error + unit) \<times> predictor" where
  "Predictor_load st jl fs self =
     (let path = model_path st in
      case fs path of
        None \<Rightarrow> (Inl FileNotFoundError, self)
      | Some b \<Rightarrow>
          (case jl_load jl b of
             Inl e \<Rightarrow> (Inl e, self)
           | Inr p \<Rightarrow> (Inr (), self\<lparr> p_pipeline := Some p \<rparr>)))"

definition is_loaded :: "predictor \<Rightarrow> bool" where
  "is_loaded self = (p_pipeline self \<noteq> None)"

definition check_loaded :: "predictor \<Rightarrow> error + unit" where
  "check_loaded self = (if p_pipeline self = None then Inl RuntimeError else Inr ())"

definition classes :: "predictor \<Rightarrow> error + string list" where
  "classes self =
     (case check_loaded self of
        Inl e \<Rightarrow> Inl e
      | Inr _ \<Rightarrow>
          (case p_pipeline self of
             None \<Rightarrow> Inl AttributeError
           | Some pl \<Rightarrow> pl_classes pl))"

text \<open>Rounding to the nearest integer, a tie going to the even one.\<close>

definition round_half_even :: "real \<Rightarrow> int" where
  "round_half_even x =
     (let f = \<lfloor>x\<rfloor>; d = x - of_int f in
      if d < 1 / 2 then f
      else if 1 / 2 < d then f + 1
      else if even f then f else f + 1)"

text \<open>
  IEEE 754 binary64, round to nearest, ties to even: \<open>fl x\<close> is the double nearest to
  \<open>x\<close>. A double has 53 significant bits, so the doubles around \<open>x\<close> are the multiples
  of 2 to the power \<open>ulp_exponent x\<close>; below the normal range the spacing stays at 2 to
  the power -1074.
\<close>

definition ulp_exponent :: "real \<Rightarrow> int" where
  "ulp_exponent x = max (\<lfloor>log 2 \<bar>x\<bar>\<rfloor> - 52) (- 1074)"

definition fl :: "real \<Rightarrow> real" where
  "fl x =
     (if x = 0 then 0
      else of_int (round_half_even (x / 2 powr of_int (ulp_exponent x)))
             * 2 powr of_int (ulp_exponent x))"

text \<open>The product of two floats.\<close>

definition float_mul :: "real \<Rightarrow> real \<Rightarrow> real" where
  "float_mul x y = fl (x * y)"

text \<open>
  Python's \<^verbatim>\<open>round(x, 1)\<close> on a float: the exact value of \<open>x\<close> is rounded to the nearest
  multiple of one tenth, a tie going to the even one, and the result is the double
  nearest to that decimal.
\<close>

definition py_round1 :: "real \<Rightarrow> real" where
  "py_round1 x = fl (of_int (round_half_even (x * 10)) / 10)"

text \<open>
  A dict built from key-value pairs in order: a repeated key keeps its first position
  and takes the last value.
\<close>

definition py_dict :: "('k \<times> 'v) list \<Rightarrow> ('k \<times> 'v) list" where
  "py_dict kvs = foldl (\<lambda>d (k, v). AList.update k v d) [] kvs"

text \<open>\<^verbatim>\<open>np.max\<close> raises \<^verbatim>\<open>ValueError\<close> on an empty array.\<close>

definition np_max :: "real list \<Rightarrow> error + real" where
  "np_max xs = (if xs = [] then Inl ValueError else Inr (Max (set xs)))"

definition Predictor_predict :: "predictor \<Rightarrow> string \<Rightarrow> error + prediction_result" where
  "Predictor_predict self texte =
     (case check_loaded self of
        Inl e \<Rightarrow> Inl e
      | Inr _ \<Rightarrow>
     (case p_pipeline self of
        None \<Rightarrow> Inl AttributeError
      | Some pl \<Rightarrow>
     (case pl_predict pl texte of
        Inl e \<Rightarrow> Inl e
      | Inr cl \<Rightarrow>
     (case pl_predict_proba pl texte of
        Inl e \<Rightarrow> Inl e
      | Inr probas_array \<Rightarrow>
     (case pl_classes pl of
        Inl e \<Rightarrow> Inl e
      | Inr cls \<Rightarrow>
     (let probs = py_dict (zip cls (map (\<lambda>prob. py_round1 (float_mul prob 100)) probas_array)) in
      case np_max probas_array of
        Inl e \<Rightarrow> Inl e
      | Inr m \<Rightarrow>
          Inr \<lparr> classe = cl,
                confiance = py_round1 (float_mul m 100),
                probabilites = probs \<rparr>))))))"

section \<open>\<^verbatim>\<open>src/model/trainer.py\<close>: persistence\<close>

record trainer =
  t_pipeline :: "pipeline option"
  X_test :: "string list option"
  y_test :: "string list option"

definition ModelTrainer_init :: trainer where
  "ModelTrainer_init = \<lparr> t_pipeline = None, X_test = None, y_test = None \<rparr>"

text \<open>
  \<^verbatim>\<open>ModelTrainer.save\<close>. The directory creation has no counterpart on a flat disk.
\<close>

definition ModelTrainer_save ::
  "settings \<Rightarrow> 'b joblib \<Rightarrow> 'b disk \<Rightarrow> trainer \<Rightarrow> (error + unit) \<times> 'b disk" where
  "ModelTrainer_save st jl fs self =
     (case t_pipeline self of
        None \<Rightarrow> (Inl RuntimeError, fs)
      | Some p \<Rightarrow> (Inr (), fs(model_path st \<mapsto> jl_dump jl p)))"

section \<open>\<^verbatim>\<open>src/api/app.py\<close> and \<^verbatim>\<open>src/api/routes.py\<close>\<close>

record app_state =
  state_predictor :: predictor

text \<open>
  The start-up half of \<^verbatim>\<open>lifespan\<close>: only \<^verbatim>\<open>FileNotFoundError\<close> is caught; any other
  exception of \<^verbatim>\<open>load\<close> ends the start-up.
\<close>

definition lifespan :: "settings \<Rightarrow> 'b joblib \<Rightarrow> 'b disk \<Rightarrow> error + (app_state \<times> log_event list)" where
  "lifespan st jl fs =
     (let predictor0 = Predictor_init in
      case Predictor_load st jl fs predictor0 of
        (Inl e, predictor1) \<Rightarrow>
          (if e = FileNotFoundError
           then Inr (\<lparr> state_predictor = predictor1 \<rparr>,
                     [Warning ''Modele introuvable'',
                      Warning ''L'API demarre en mode degrade (sans modele).''])
           else Inl e)
      | (Inr _, predictor1) \<Rightarrow>
          Inr (\<lparr> state_predictor = predictor1 \<rparr>, [Success ''Modele charge'']))"

record health_response =
  status :: string
  modele_charge :: bool
  classes_disponibles :: "string list"
  version :: string

definition health :: "settings \<Rightarrow> app_state \<Rightarrow> error + health_response" where
  "health st app =
     (let predictor0 = state_predictor app in
      case (if is_loaded predictor0 then classes predictor0 else Inr []) of
        Inl e \<Rightarrow> Inl e
      | Inr cs \<Rightarrow>
          Inr \<lparr> status = (if is_loaded predictor0 then ''ok'' else ''degraded''),
                modele_charge = is_loaded predictor0,
                classes_disponibles = cs,
                version = app_version st \<rparr>)"

text \<open>
  \<^verbatim>\<open>src/api/schemas.py\<close>: the two tables keyed by category. The texts are shortened.
\<close>

definition ACTIONS :: "(string \<times> string) list" where
  "ACTIONS =
     [(''Information'', ''Reponse automatique envoyee au client.''),
      (''Commande'', ''Commande enregistree et notification envoyee.''),
      (CHR ''R'' # CHR 0xE9 # ''clamation'', ''Ticket de reclamation cree et transmis.''),
      (''Urgence'', ''ALERTE PRIORITAIRE : notification immediate envoyee.'')]"

definition REPONSES_AUTO :: "(string \<times> string) list" where
  "REPONSES_AUTO =
     [(''Information'', ''Bonjour ! Merci pour votre message.''),
      (''Commande'', ''Bonjour ! Votre commande a bien ete enregistree.''),
      (CHR ''R'' # CHR 0xE9 # ''clamation'', ''Bonjour ! Nous sommes desoles pour cet inconvenient.''),
      (''Urgence'', ''Votre demande urgente a ete transmise.'')]"

datatype http_error = HTTPException nat

record demande_response =
  dr_message :: string
  dr_classe :: string
  dr_confiance :: real
  dr_action_automatique :: string
  dr_reponse_client :: string
  dr_probabilites :: "(string \<times> real) list"

text \<open>
  The endpoint \<^verbatim>\<open>POST /predict\<close>: status 503 without a model; inside the \<^verbatim>\<open>try\<close> every
  exception, of \<^verbatim>\<open>predict\<close> or of a table lookup, becomes status 500.
\<close>

definition predict_endpoint :: "app_state \<Rightarrow> string \<Rightarrow> http_error + demande_response" where
  "predict_endpoint app body_message =
     (let predictor0 = state_predictor app in
      if \<not> is_loaded predictor0 then Inl (HTTPException 503)
      else
        case Predictor_predict predictor0 body_message of
          Inl e \<Rightarrow> Inl (HTTPException 500)
        | Inr result \<Rightarrow>
            (case map_of ACTIONS (classe result) of
               None \<Rightarrow> Inl (HTTPException 500)
             | Some action \<Rightarrow>
                 (case map_of REPONSES_AUTO (classe result) of
                    None \<Rightarrow> Inl (HTTPException 500)
                  | Some reponse \<Rightarrow>
                      Inr \<lparr> dr_message = body_message,
                            dr_classe = classe result,
                            dr_confiance = confiance result,
                            dr_action_automatique = action,
                            dr_reponse_client = reponse,
                            dr_probabilites = probabilites result \<rparr>)))"

section \<open>\<^verbatim>\<open>src/data/loader.py\<close>\<close>

text \<open>
  The four labels of the code are the French names; the specification writes them as
  Information, Complaint, Order and Emergency.
\<close>

definition CLASSES_VALIDES :: "string set" where
  "CLASSES_VALIDES =
     {''Information'', CHR ''R'' # CHR 0xE9 # ''clamation'', ''Commande'', ''Urgence''}"

text \<open>
  A data frame as \<^verbatim>\<open>pd.read_csv\<close> returns it: the column names, and per row the cells of
  the two columns the loader reads. A cell is null (NaN), a text, or a value that pandas
  parsed as a number. \<^verbatim>\<open>read_csv\<close> is called without a \<^verbatim>\<open>dtype\<close>, so a column none of whose
  cells is a text has a numeric dtype.
\<close>

datatype cell = Null | Text string | Number real

record row =
  r_texte :: cell
  r_classe :: cell

record dataframe =
  columns :: "string list"
  rows :: "row list"

record data_loader =
  dl_path :: string

definition DataLoader_init :: "settings \<Rightarrow> string option \<Rightarrow> data_loader" where
  "DataLoader_init st path =
     \<lparr> dl_path = (case path of None \<Rightarrow> dataset_path st | Some p \<Rightarrow> p) \<rparr>"

definition read_csv :: "dataframe disk \<Rightarrow> data_loader \<Rightarrow> error + dataframe" where
  "read_csv fs self =
     (case fs (dl_path self) of
        None \<Rightarrow> Inl FileNotFoundError
      | Some df \<Rightarrow> Inr df)"

definition numeric_dtype :: "cell list \<Rightarrow> bool" where
  "numeric_dtype column =
     (column \<noteq> [] \<and> list_all (\<lambda>c. case c of Text t \<Rightarrow> False | _ \<Rightarrow> True) column)"

text \<open>
  The \<^verbatim>\<open>.str\<close> accessor of a column: pandas raises \<^verbatim>\<open>AttributeError\<close> on a column of
  numeric dtype.
\<close>

definition str_accessor :: "cell list \<Rightarrow> error + cell list" where
  "str_accessor column = (if numeric_dtype column then Inl AttributeError else Inr column)"

text \<open>\<^verbatim>\<open>.str.len() < 5\<close>: a cell that is not a text has length NaN, which is not below 5.\<close>

definition textes_courts :: "dataframe \<Rightarrow> row list" where
  "textes_courts df =
     filter (\<lambda>r. case r_texte r of Text t \<Rightarrow> length t < 5 | _ \<Rightarrow> False) (rows df)"

definition validate :: "dataframe \<Rightarrow> error + log_event list" where
  "validate df =
     (let colonnes_requises = {''texte'', ''classe''};
          colonnes_manquantes = colonnes_requises - set (columns df)
      in
      if colonnes_manquantes \<noteq> {} then Inl ValueError
      else
        let nulls = [length (filter (\<lambda>r. r_texte r = Null) (rows df)),
                     length (filter (\<lambda>r. r_classe r = Null) (rows df))]
        in
        if list_ex (\<lambda>n. n \<noteq> 0) nulls then Inl ValueError
        else
          let classes_inconnues = set (map r_classe (rows df)) - Text ` CLASSES_VALIDES
          in
          if classes_inconnues \<noteq> {} then Inl ValueError
          else
            case str_accessor (map r_texte (rows df)) of
              Inl e \<Rightarrow> Inl e
            | Inr _ \<Rightarrow>
                Inr ((if textes_courts df \<noteq> []
                      then [Warning_short_texts (length (textes_courts df))]
                      else [])
                     @ [Info ''Validation du dataset : OK'']))"

text \<open>
  \<^verbatim>\<open>str.strip()\<close>: the white space of Python among the code points below 256.
\<close>

definition is_space :: "char \<Rightarrow> bool" where
  "is_space c = (of_char c \<in> {9, 10, 11, 12, 13, 28, 29, 30, 31, 32, 133, 160 :: nat})"

definition strip :: "string \<Rightarrow> string" where
  "strip s = rev (dropWhile is_space (rev (dropWhile is_space s)))"

text \<open>\<^verbatim>\<open>.str.strip()\<close> on one cell: a cell that is not a text gives NaN.\<close>

definition str_strip :: "cell \<Rightarrow> cell" where
  "str_strip c = (case c of Text t \<Rightarrow> Text (strip t) | _ \<Rightarrow> Null)"

text \<open>
  \<^verbatim>\<open>DataLoader.load\<close>: the two series, stripped, and the log of the validation. The
  statistics printed in between only write to the log.
\<close>

definition DataLoader_load ::
  "dataframe disk \<Rightarrow> data_loader \<Rightarrow>
     error + ((cell list \<times> cell list) \<times> log_event list)" where
  "DataLoader_load fs self =
     (case read_csv fs self of
        Inl e \<Rightarrow> Inl e
      | Inr df \<Rightarrow>
     (case validate df of
        Inl e \<Rightarrow> Inl e
      | Inr events \<Rightarrow>
     (case str_accessor (map r_texte (rows df)) of
        Inl e \<Rightarrow> Inl e
      | Inr X \<Rightarrow>
     (case str_accessor (map r_classe (rows df)) of
        Inl e \<Rightarrow> Inl e
      | Inr y \<Rightarrow> Inr ((map str_strip X, map str_strip y), events)))))"

section \<open>The contract of the library's probabilities\<close>

text \<open>
  What scikit-learn promises of a pipeline fitted on a validated dataset, at one text:
  the three members return, \<^verbatim>\<open>classes_\<close> lists distinct labels of the category set,
  and \<^verbatim>\<open>predict_proba\<close> gives one non-negative number per label, summing to 1 within
  floating-point tolerance (here one part in a thousand million).
\<close>

definition proba_contract :: "pipeline \<Rightarrow> string \<Rightarrow> bool" where
  "proba_contract pl texte =
     (case (pl_predict pl texte, pl_predict_proba pl texte, pl_classes pl) of
        (Inr cl, Inr ps, Inr cls) \<Rightarrow>
          length ps = length cls \<and> distinct cls \<and> set cls \<subseteq> CLASSES_VALIDES \<and>
          list_all (\<lambda>p. 0 \<le> p) ps \<and> \<bar>sum_list ps - 1\<bar> \<le> 1 / 10 ^ 9
      | _ \<Rightarrow> False)"

section \<open>\<^verbatim>\<open>src/model/trainer.py\<close>: training\<close>

text \<open>
  The computations of scikit-learn that training calls, as parameters: the shuffled
  stratified split, the optimiser, the metrics of the report and the cross-validation
  scores. Each may raise.
\<close>

record sklearn =
  sk_shuffle ::
    "real \<Rightarrow> int \<Rightarrow> string list \<Rightarrow> string list \<Rightarrow>
       error + (string list \<times> string list \<times> string list \<times> string list)"
  sk_optimize :: "hyper \<Rightarrow> string list \<Rightarrow> string list \<Rightarrow> error + pipeline"
  sk_report :: "string list \<Rightarrow> string list \<Rightarrow> error + unit"
  sk_confusion_matrix :: "string list \<Rightarrow> string list \<Rightarrow> string list \<Rightarrow> error + unit"
  sk_cross_val_score :: "pipeline \<Rightarrow> string list \<Rightarrow> string list \<Rightarrow> error + real list"

text \<open>
  Modelled from the spec: the library call \<^verbatim>\<open>train_test_split(X, y, stratify=y)\<close>, which
  is not code of the repository. Section 4.2: a dataset with a category with fewer than
  2 examples cannot be stratified and fails with a data error (\<^verbatim>\<open>ValueError\<close>); otherwise
  the shuffled split is the library's.
\<close>

definition train_test_split ::
  "sklearn \<Rightarrow> real \<Rightarrow> int \<Rightarrow> string list \<Rightarrow> string list \<Rightarrow>
     error + (string list \<times> string list \<times> string list \<times> string list)" where
  "train_test_split sk ts rs X y =
     (if list_ex (\<lambda>c. count_list y c < 2) y then Inl ValueError
      else sk_shuffle sk ts rs X y)"

text \<open>
  Modelled from the spec: the library call \<^verbatim>\<open>Pipeline.fit\<close>, which is not code of the
  repository. Section 4.2: \<^verbatim>\<open>fit\<close> on fewer than 2 distinct categories fails with a data
  error (\<^verbatim>\<open>ValueError\<close>); otherwise the fitted pipeline is the optimiser's.
\<close>

definition Pipeline_fit ::
  "sklearn \<Rightarrow> pipeline \<Rightarrow> string list \<Rightarrow> string list \<Rightarrow> error + pipeline" where
  "Pipeline_fit sk pl X y =
     (if length (remdups y) < 2 then Inl ValueError
      else sk_optimize sk (pl_params pl) X y)"

text \<open>
  What the shuffled split of the library keeps at one call: it raises nothing but
  \<^verbatim>\<open>ValueError\<close>, and the training labels it returns are labels of the dataset.
\<close>

definition shuffle_contract :: "sklearn \<Rightarrow> settings \<Rightarrow> string list \<Rightarrow> string list \<Rightarrow> bool" where
  "shuffle_contract sk st X y =
     (case sk_shuffle sk (test_size st) (random_state st) X y of
        Inl e \<Rightarrow> e = ValueError
      | Inr (X_train, X_test', y_train, y_test') \<Rightarrow> list_all (\<lambda>c. c \<in> set y) y_train)"

definition ModelTrainer_split ::
  "settings \<Rightarrow> sklearn \<Rightarrow> string list \<Rightarrow> string list \<Rightarrow>
     error + (string list \<times> string list \<times> string list \<times> string list)" where
  "ModelTrainer_split st sk X y =
     (case train_test_split sk (test_size st) (random_state st) X y of
        Inl e \<Rightarrow> Inl e
      | Inr (X_train, X_test', y_train, y_test') \<Rightarrow> Inr (X_train, X_test', y_train, y_test'))"

text \<open>
  \<^verbatim>\<open>_build_pipeline\<close>: an unfitted pipeline. Before \<^verbatim>\<open>fit\<close> its members raise.
\<close>

definition build_pipeline :: "settings \<Rightarrow> pipeline" where
  "build_pipeline st =
     \<lparr> pl_params =
         \<lparr> ngram_range = (tfidf_ngram_min st, tfidf_ngram_max st),
           max_features = tfidf_max_features st,
           sublinear_tf = True,
           strip_accents = ''unicode'',
           analyzer_kind = ''word'',
           min_df = 1,
           C = lr_c st,
           max_iter = lr_max_iter st,
           solver = ''lbfgs'',
           class_weight = ''balanced'' \<rparr>,
       pl_predict = (\<lambda>t. Inl NotFittedError),
       pl_predict_proba = (\<lambda>t. Inl NotFittedError),
       pl_classes = Inl AttributeError \<rparr>"

fun predict_all :: "pipeline \<Rightarrow> string list \<Rightarrow> error + string list" where
  "predict_all pl [] = Inr []"
| "predict_all pl (t # ts) =
     (case pl_predict pl t of
        Inl e \<Rightarrow> Inl e
      | Inr c \<Rightarrow> (case predict_all pl ts of Inl e \<Rightarrow> Inl e | Inr cs \<Rightarrow> Inr (c # cs)))"

definition evaluate :: "sklearn \<Rightarrow> pipeline \<Rightarrow> string list \<Rightarrow> string list \<Rightarrow> error + unit" where
  "evaluate sk pl X_test' y_test' =
     (case predict_all pl X_test' of
        Inl e \<Rightarrow> Inl e
      | Inr y_pred \<Rightarrow>
     (case sk_report sk y_test' y_pred of
        Inl e \<Rightarrow> Inl e
      | Inr _ \<Rightarrow>
     (case pl_classes pl of
        Inl e \<Rightarrow> Inl e
      | Inr cls \<Rightarrow> sk_confusion_matrix sk y_test' y_pred cls)))"

definition cross_validate :: "sklearn \<Rightarrow> pipeline \<Rightarrow> string list \<Rightarrow> string list \<Rightarrow> error + unit" where
  "cross_validate sk pl X y =
     (case sk_cross_val_score sk pl X y of
        Inl e \<Rightarrow> Inl e
      | Inr scores \<Rightarrow> Inr ())"

text \<open>
  \<^verbatim>\<open>ModelTrainer.train\<close>, with the fields of \<^verbatim>\<open>self\<close> as they stand when an exception
  leaves the method: the test set is assigned after the split, the unfitted pipeline
  before \<^verbatim>\<open>fit\<close>.
\<close>

definition ModelTrainer_train ::
  "settings \<Rightarrow> sklearn \<Rightarrow> trainer \<Rightarrow> string list \<Rightarrow> string list \<Rightarrow> (error + unit) \<times> trainer" where
  "ModelTrainer_train st sk self X y =
     (case ModelTrainer_split st sk X y of
        Inl e \<Rightarrow> (Inl e, self)
      | Inr (X_train, X_test', y_train, y_test') \<Rightarrow>
          (let self1 = self\<lparr> X_test := Some X_test', y_test := Some y_test' \<rparr>;
               unfitted = build_pipeline st;
               self2 = self1\<lparr> t_pipeline := Some unfitted \<rparr>
           in
           case Pipeline_fit sk unfitted X_train y_train of
             Inl e \<Rightarrow> (Inl e, self2)
           | Inr fitted \<Rightarrow>
               (let self3 = self2\<lparr> t_pipeline := Some fitted \<rparr> in
                case evaluate sk fitted X_test' y_test' of
                  Inl e \<Rightarrow> (Inl e, self3)
                | Inr _ \<Rightarrow>
                    (case cross_validate sk fitted X y of
                       Inl e \<Rightarrow> (Inl e, self3)
                     | Inr _ \<Rightarrow> (Inr (), self3)))))"

section \<open>The fitted vectorizer and classifier\<close>

text \<open>
  Modelled from the spec: the fitted Vectorizer and Classifier (sections 3, 4.1 and 4.2),
  which are scikit-learn's \<^verbatim>\<open>TfidfVectorizer\<close> and \<^verbatim>\<open>LogisticRegression\<close> and not code of
  the repository. A fitted model is a frozen vocabulary with one inverse-document-frequency
  weight per term, the ordered categories, and per category a weight vector and a
  bias. Tokenising a text into normalised unigrams and bigrams is left as a function.
\<close>

record fitted_model =
  fm_analyzer :: "string \<Rightarrow> string list"
  fm_vocabulary :: "string list"
  fm_idf :: "real list"
  fm_categories :: "string list"
  fm_coef :: "real list list"
  fm_intercept :: "real list"

text \<open>
  Modelled from the spec: the categories are an ordered set (section 4.3), and there is
  one weight vector and one bias per category (section 3).
\<close>

definition well_formed :: "fitted_model \<Rightarrow> bool" where
  "well_formed m =
     (fm_categories m \<noteq> [] \<and> sorted_wrt (<) (fm_categories m) \<and>
      length (fm_coef m) = length (fm_categories m) \<and>
      length (fm_intercept m) = length (fm_categories m))"

text \<open>
  Modelled from the spec: \<^verbatim>\<open>Vectorizer.transform\<close> (section 4.1). The sublinear score is
  \<open>1 + log raw_count\<close> for a count of at least 1 and 0 otherwise; it is scaled by the
  term's weight; the vector is L2-normalised, an all-zero vector being left as it is.
\<close>

definition sublinear_score :: "nat \<Rightarrow> real" where
  "sublinear_score raw_count = (if 1 \<le> raw_count then 1 + ln (real raw_count) else 0)"

definition l2_normalize :: "real list \<Rightarrow> real list" where
  "l2_normalize v =
     (let n = sqrt (sum_list (map (\<lambda>x. x * x) v)) in
      if n = 0 then v else map (\<lambda>x. x / n) v)"

definition Vectorizer_transform :: "fitted_model \<Rightarrow> string \<Rightarrow> real list" where
  "Vectorizer_transform m texte =
     (let tokens = fm_analyzer m texte in
      l2_normalize
        (map2 (\<lambda>term w. sublinear_score (count_list tokens term) * w)
           (fm_vocabulary m) (fm_idf m)))"

text \<open>
  Modelled from the spec: \<^verbatim>\<open>Classifier.predict_proba\<close> (section 4.2), the
  softmax-normalised linear scores. The division raises on a zero denominator.
\<close>

definition dot :: "real list \<Rightarrow> real list \<Rightarrow> real" where
  "dot w v = sum_list (map2 (*) w v)"

definition decision_function :: "fitted_model \<Rightarrow> real list \<Rightarrow> real list" where
  "decision_function m v = map2 (\<lambda>w b. dot w v + b) (fm_coef m) (fm_intercept m)"

definition softmax :: "real list \<Rightarrow> error + real list" where
  "softmax zs =
     (let s = sum_list (map exp zs) in
      if s = 0 then Inl ZeroDivisionError else Inr (map (\<lambda>z. exp z / s) zs))"

definition Classifier_predict_proba :: "fitted_model \<Rightarrow> real list \<Rightarrow> error + real list" where
  "Classifier_predict_proba m v = softmax (decision_function m v)"

text \<open>
  Modelled from the spec: \<^verbatim>\<open>Classifier.predict\<close> (section 4.2), the argmax category of
  \<^verbatim>\<open>predict_proba\<close>. The argmax is the first index that holds the maximum, and it
  indexes the categories in their order.
\<close>

definition argmax :: "real list \<Rightarrow> nat" where
  "argmax ps = length (takeWhile (\<lambda>p. p \<noteq> Max (set ps)) ps)"

definition Classifier_predict :: "fitted_model \<Rightarrow> real list \<Rightarrow> error + string" where
  "Classifier_predict m v =
     (case Classifier_predict_proba m v of
        Inl e \<Rightarrow> Inl e
      | Inr ps \<Rightarrow>
          if ps = [] then Inl ValueError
          else if argmax ps < length (fm_categories m)
          then Inr (fm_categories m ! argmax ps)
          else Inl IndexError)"

text \<open>
  Modelled from the spec: the fitted Pipeline (section 4.3), the vectorizer followed by
  the classifier, seen through the three members the repository reads.
\<close>

definition fitted_pipeline :: "hyper \<Rightarrow> fitted_model \<Rightarrow> pipeline" where
  "fitted_pipeline h m =
     \<lparr> pl_params = h,
       pl_predict = (\<lambda>texte. Classifier_predict m (Vectorizer_transform m texte)),
       pl_predict_proba = (\<lambda>texte. Classifier_predict_proba m (Vectorizer_transform m texte)),
       pl_classes = Inr (fm_categories m) \<rparr>"

section \<open>Concrete inputs\<close>

definition demo_hyper :: hyper where
  "demo_hyper =
     \<lparr> ngram_range = (1, 2), max_features = 5000, sublinear_tf = True,
       strip_accents = ''unicode'', analyzer_kind = ''word'', min_df = 1,
       C = 1, max_iter = 1000, solver = ''lbfgs'', class_weight = ''balanced'' \<rparr>"

text \<open>
  A pipeline whose probabilities are the doubles that Python writes 0.2505, 0.2505,
  0.2505 and 0.2485; their exact sum is 1.
\<close>

definition demo_pipeline :: pipeline where
  "demo_pipeline =
     \<lparr> pl_params = demo_hyper,
       pl_predict = (\<lambda>t. Inr ''Commande''),
       pl_predict_proba = (\<lambda>t. Inr
         [4512606826625237 / 2 ^ 54, 4512606826625237 / 2 ^ 54,
          4512606826625237 / 2 ^ 54, 4476578029606273 / 2 ^ 54]),
       pl_classes = Inr [''Commande'', ''Information'', CHR ''R'' # CHR 0xE9 # ''clamation'', ''Urgence''] \<rparr>"

definition demo_dataframe :: dataframe where
  "demo_dataframe =
     \<lparr> columns = [''texte'', ''classe''],
       rows = [\<lparr> r_texte = Text ''Urgent ! Paiement Wave bloque.'', r_classe = Text ''Urgence'' \<rparr>,
               \<lparr> r_texte = Text ''Prix'', r_classe = Text ''Information'' \<rparr>,
               \<lparr> r_texte = Text '' Je veux commander 5 cartons d'eau. '', r_classe = Text ''Commande'' \<rparr>,
               \<lparr> r_texte = Text ''ok ?'',
                 r_classe = Text (CHR ''R'' # CHR 0xE9 # ''clamation'') \<rparr>] \<rparr>"

text \<open>
  The data frame of a CSV file whose \<^verbatim>\<open>texte\<close> column holds digits only:
  \<^verbatim>\<open>texte,classe\<close> / \<^verbatim>\<open>12345,Information\<close> / \<^verbatim>\<open>678,Urgence\<close>.
\<close>

definition digits_dataframe :: dataframe where
  "digits_dataframe =
     \<lparr> columns = [''texte'', ''classe''],
       rows = [\<lparr> r_texte = Number 12345, r_classe = Text ''Information'' \<rparr>,
               \<lparr> r_texte = Number 678, r_classe = Text ''Urgence'' \<rparr>] \<rparr>"

definition id_joblib :: "pipeline joblib" where
  "id_joblib = \<lparr> jl_dump = (\<lambda>p. p), jl_load = (\<lambda>b. Inr b) \<rparr>"

definition demo_sklearn :: sklearn where
  "demo_sklearn =
     \<lparr> sk_shuffle = (\<lambda>ts rs X y.
         Inr (take (length X - 1) X, drop (length X - 1) X,
              take (length y - 1) y, drop (length y - 1) y)),
       sk_optimize = (\<lambda>h X y. Inr (demo_pipeline\<lparr> pl_params := h \<rparr>)),
       sk_report = (\<lambda>y_true y_pred. Inr ()),
       sk_confusion_matrix = (\<lambda>y_true y_pred labels. Inr ()),
       sk_cross_val_score = (\<lambda>pl X y. Inr [1, 1, 1, 1, 1]) \<rparr>"

text \<open>A small fitted model: two terms, the four categories, two of them with the larger bias.\<close>

definition demo_model :: fitted_model where
  "demo_model =
     \<lparr> fm_analyzer = (\<lambda>texte. if texte = ''wave'' then [''wave''] else []),
       fm_vocabulary = [''urgent'', ''wave''],
       fm_idf = [1, 2],
       fm_categories = [''Commande'', ''Information'', CHR ''R'' # CHR 0xE9 # ''clamation'', ''Urgence''],
       fm_coef = [[0, 0], [0, 0], [0, 0], [0, 0]],
       fm_intercept = [0, ln 2, ln 2, 0] \<rparr>"

section \<open>An unloaded predictor\<close>

lemma check_loaded_None: "p_pipeline self = None \<Longrightarrow> check_loaded self = Inl RuntimeError"
  by (simp add: check_loaded_def)

lemma check_loaded_Some: "p_pipeline self = Some pl \<Longrightarrow> check_loaded self = Inr ()"
  by (simp add: check_loaded_def)

lemma Predictor_load_failed:
  "fst (Predictor_load st jl fs self) = Inl e \<Longrightarrow> snd (Predictor_load st jl fs self) = self"
  by (auto simp: Predictor_load_def Let_def split: option.splits sum.splits)

text \<open>
  Claim C3. On a predictor whose \<^verbatim>\<open>load()\<close> has not completed (no pipeline has been
  assigned, as after \<^verbatim>\<open>Predictor()\<close>), every call of \<^verbatim>\<open>predict\<close> raises the not-ready
  error (\<^verbatim>\<open>RuntimeError\<close>) and returns no prediction result; a \<^verbatim>\<open>load()\<close> that raises
  leaves the predictor in that state.
\<close>

theorem predict_before_load_not_ready:
  assumes "p_pipeline self = None"
  shows "Predictor_predict self texte = Inl RuntimeError \<and>
         (fst (Predictor_load st jl fs self) \<noteq> Inr () \<longrightarrow>
            Predictor_predict (snd (Predictor_load st jl fs self)) texte = Inl RuntimeError)"
proof -
  have a: "Predictor_predict s texte = Inl RuntimeError" if "p_pipeline s = None" for s
    using that by (simp add: Predictor_predict_def check_loaded_None)
  have "snd (Predictor_load st jl fs self) = self"
    if "fst (Predictor_load st jl fs self) \<noteq> Inr ()"
  proof (cases "fst (Predictor_load st jl fs self)")
    case (Inl e)
    then show ?thesis by (rule Predictor_load_failed)
  next
    case (Inr u)
    with that show ?thesis by simp
  qed
  with a [OF assms] show ?thesis by simp
qed

theorem predict_before_load_not_ready_witness:
  "p_pipeline Predictor_init = None \<and>
   Predictor_predict Predictor_init ''Urgent ! Paiement Wave bloque.'' = Inl RuntimeError \<and>
   fst (Predictor_load default_settings id_joblib Map.empty Predictor_init) = Inl FileNotFoundError \<and>
   Predictor_predict (snd (Predictor_load default_settings id_joblib Map.empty Predictor_init))
     ''Urgent ! Paiement Wave bloque.'' = Inl RuntimeError"
  using predict_before_load_not_ready
    [of Predictor_init "''Urgent ! Paiement Wave bloque.''" default_settings id_joblib Map.empty]
  by (simp add: Predictor_init_def Predictor_load_def)

section \<open>The categories accessor and the health endpoint\<close>

text \<open>
  Claim C10. On an unloaded predictor the \<^verbatim>\<open>classes\<close> accessor raises the same not-ready
  error as \<^verbatim>\<open>predict\<close> and returns no list, not even an empty one; \<^verbatim>\<open>is_loaded\<close> is false
  exactly when no pipeline has been loaded; and the health endpoint, which reads
  \<^verbatim>\<open>classes\<close> only under \<^verbatim>\<open>is_loaded\<close>, answers "degraded" with an empty list.
\<close>

theorem classes_before_load_not_ready:
  "(is_loaded self \<longleftrightarrow> p_pipeline self \<noteq> None) \<and>
   (\<not> is_loaded self \<longrightarrow>
      classes self = Inl RuntimeError \<and>
      Predictor_predict self texte = Inl RuntimeError \<and>
      classes self \<noteq> Inr cs \<and>
      health st \<lparr> state_predictor = self \<rparr> =
        Inr \<lparr> status = ''degraded'', modele_charge = False,
              classes_disponibles = [], version = app_version st \<rparr>)"
  by (simp add: is_loaded_def classes_def health_def Predictor_predict_def check_loaded_None)

theorem classes_before_load_not_ready_witness:
  "\<not> is_loaded Predictor_init \<and>
   classes Predictor_init = Inl RuntimeError \<and>
   Predictor_predict Predictor_init ''Bonjour'' = Inl RuntimeError \<and>
   classes Predictor_init \<noteq> Inr [] \<and>
   health default_settings \<lparr> state_predictor = Predictor_init \<rparr> =
     Inr \<lparr> status = ''degraded'', modele_charge = False,
           classes_disponibles = [], version = ''1.0.0'' \<rparr>"
  using classes_before_load_not_ready [of Predictor_init "''Bonjour''" "[]" default_settings]
  by (simp add: is_loaded_def Predictor_init_def default_settings_def)

section \<open>Start-up without a persisted model\<close>

text \<open>
  Claim C7. When no model artifact exists at the configured location, \<^verbatim>\<open>Predictor.load\<close>
  raises the not-found error (\<^verbatim>\<open>FileNotFoundError\<close>) and leaves the predictor as it was;
  the start-up code of the serving layer catches it and completes with an unloaded
  predictor (\<^verbatim>\<open>is_loaded\<close> false, health "degraded") instead of failing.
\<close>

theorem load_missing_artifact_degraded:
  assumes "fs (model_path st) = None"
  shows "Predictor_load st jl fs self = (Inl FileNotFoundError, self) \<and>
         lifespan st jl fs =
           Inr (\<lparr> state_predictor = Predictor_init \<rparr>,
                [Warning ''Modele introuvable'',
                 Warning ''L'API demarre en mode degrade (sans modele).'']) \<and>
         \<not> is_loaded Predictor_init \<and>
         health st \<lparr> state_predictor = Predictor_init \<rparr> =
           Inr \<lparr> status = ''degraded'', modele_charge = False,
                 classes_disponibles = [], version = app_version st \<rparr>"
  using assms
  by (simp add: Predictor_load_def lifespan_def is_loaded_def Predictor_init_def health_def)

theorem load_missing_artifact_degraded_witness:
  "(Map.empty :: pipeline disk) (model_path default_settings) = None \<and>
   Predictor_load default_settings id_joblib Map.empty Predictor_init =
     (Inl FileNotFoundError, Predictor_init) \<and>
   lifespan default_settings id_joblib Map.empty =
     Inr (\<lparr> state_predictor = Predictor_init \<rparr>,
          [Warning ''Modele introuvable'',
           Warning ''L'API demarre en mode degrade (sans modele).''])"
  using load_missing_artifact_degraded [of Map.empty default_settings id_joblib Predictor_init]
  by simp

section \<open>Saving an untrained trainer\<close>

text \<open>
  \<^verbatim>\<open>ModelTrainer.save\<close> on a trainer whose \<^verbatim>\<open>pipeline\<close> is \<^verbatim>\<open>None\<close> (as after
  \<^verbatim>\<open>ModelTrainer()\<close>, before any \<^verbatim>\<open>train\<close>) raises \<^verbatim>\<open>RuntimeError\<close> and leaves the disk
  as it was: nothing is written.
\<close>

theorem save_untrained_raises:
  assumes "t_pipeline self = None"
  shows "ModelTrainer_save st jl fs self = (Inl RuntimeError, fs)"
  using assms by (simp add: ModelTrainer_save_def)

theorem save_untrained_raises_witness:
  "t_pipeline ModelTrainer_init = None \<and>
   ModelTrainer_save default_settings id_joblib [''old.joblib'' \<mapsto> demo_pipeline] ModelTrainer_init =
     (Inl RuntimeError, [''old.joblib'' \<mapsto> demo_pipeline])"
  using save_untrained_raises
    [of ModelTrainer_init default_settings id_joblib "[''old.joblib'' \<mapsto> demo_pipeline]"]
  by (simp add: ModelTrainer_init_def)

section \<open>Training on insufficient data\<close>

lemma train_split_failed:
  "ModelTrainer_split st sk X y = Inl e \<Longrightarrow> ModelTrainer_train st sk self X y = (Inl e, self)"
  by (simp add: ModelTrainer_train_def)

lemma split_under_represented:
  "list_ex (\<lambda>c. count_list y c < 2) y \<Longrightarrow> ModelTrainer_split st sk X y = Inl ValueError"
  by (simp add: ModelTrainer_split_def train_test_split_def)

lemma remdups_subset_length:
  assumes "set ys \<subseteq> set y"
  shows "length (remdups ys) \<le> length (remdups y)"
proof -
  have "card (set ys) \<le> card (set y)" using assms by (simp add: card_mono)
  then show ?thesis by (simp add: length_remdups_card_conv)
qed

lemma train_fit_failed:
  assumes "ModelTrainer_split st sk X y = Inr (X_train, X_test', y_train, y_test')"
    and "length (remdups y_train) < 2"
  shows "ModelTrainer_train st sk self X y =
           (Inl ValueError,
            self\<lparr> X_test := Some X_test', y_test := Some y_test',
                  t_pipeline := Some (build_pipeline st) \<rparr>)"
  using assms by (simp add: ModelTrainer_train_def Pipeline_fit_def Let_def)

text \<open>
  Claim C4. When the labels have fewer than 2 distinct categories, or some category has
  fewer than 2 examples, \<^verbatim>\<open>ModelTrainer.train\<close> raises the data error (\<^verbatim>\<open>ValueError\<close>):
  the stratified split or \<^verbatim>\<open>fit\<close> refuses the data and \<^verbatim>\<open>train\<close> hands the exception
  on. No category is dropped and no fitted model is produced: the trainer's pipeline
  is what it was before, or the unfitted pipeline just built.
\<close>

theorem train_insufficient_data_fails:
  assumes shuffle: "shuffle_contract sk st X y"
    and bad: "length (remdups y) < 2 \<or> list_ex (\<lambda>c. count_list y c < 2) y"
  shows "fst (ModelTrainer_train st sk self X y) = Inl ValueError \<and>
         (t_pipeline (snd (ModelTrainer_train st sk self X y)) = t_pipeline self \<or>
          t_pipeline (snd (ModelTrainer_train st sk self X y)) = Some (build_pipeline st))"
proof (cases "list_ex (\<lambda>c. count_list y c < 2) y")
  case True
  then show ?thesis
    by (simp add: train_split_failed [OF split_under_represented])
next
  case False
  with bad have few: "length (remdups y) < 2" by simp
  from False have split: "ModelTrainer_split st sk X y =
      sk_shuffle sk (test_size st) (random_state st) X y"
    by (simp add: ModelTrainer_split_def train_test_split_def split: sum.splits)
  show ?thesis
  proof (cases "ModelTrainer_split st sk X y")
    case (Inl e)
    with split have "sk_shuffle sk (test_size st) (random_state st) X y = Inl e" by simp
    with shuffle have "e = ValueError" by (simp add: shuffle_contract_def)
    with Inl show ?thesis by (simp add: train_split_failed)
  next
    case (Inr r)
    obtain a b c d where r: "r = (a, b, c, d)" by (cases r) auto
    from Inr split have "sk_shuffle sk (test_size st) (random_state st) X y = Inr (a, b, c, d)"
      by (simp add: r)
    with shuffle have "set c \<subseteq> set y"
      by (auto simp: shuffle_contract_def list_all_iff)
    from remdups_subset_length [OF this] few have "length (remdups c) < 2" by simp
    from train_fit_failed [OF Inr [unfolded r] this] show ?thesis by simp
  qed
qed

theorem train_insufficient_data_fails_witness:
  "shuffle_contract demo_sklearn default_settings [''a'', ''b'', ''c''] [''Urgence'', ''Urgence'', ''Urgence''] \<and>
   length (remdups [''Urgence'', ''Urgence'', ''Urgence'']) < 2 \<and>
   ModelTrainer_train default_settings demo_sklearn ModelTrainer_init
       [''a'', ''b'', ''c''] [''Urgence'', ''Urgence'', ''Urgence''] =
     (Inl ValueError,
      \<lparr> t_pipeline = Some (build_pipeline default_settings),
        X_test = Some [''c''], y_test = Some [''Urgence''] \<rparr>)"
  using train_insufficient_data_fails
    [of demo_sklearn default_settings "[''a'', ''b'', ''c'']" "[''Urgence'', ''Urgence'', ''Urgence'']"
        ModelTrainer_init]
  by (simp add: shuffle_contract_def demo_sklearn_def ModelTrainer_train_def ModelTrainer_split_def
      train_test_split_def Pipeline_fit_def ModelTrainer_init_def Let_def)

lemma train_one_example_category:
  "ModelTrainer_train default_settings demo_sklearn ModelTrainer_init
       [''a'', ''b'', ''c''] [''Urgence'', ''Urgence'', ''Commande''] =
     (Inl ValueError, ModelTrainer_init)"
  by (simp add: ModelTrainer_train_def ModelTrainer_split_def train_test_split_def)

lemma train_balanced_succeeds:
  "fst (ModelTrainer_train default_settings demo_sklearn ModelTrainer_init
       [''a'', ''b'', ''c'', ''d'', ''e''] [''Urgence'', ''Commande'', ''Urgence'', ''Commande'', ''Urgence'']) =
     Inr ()"
  by (simp add: ModelTrainer_train_def ModelTrainer_split_def train_test_split_def demo_sklearn_def
      Pipeline_fit_def Let_def evaluate_def cross_validate_def demo_pipeline_def)

section \<open>Rounding to the nearest double\<close>

lemma round_half_even_bounds:
  "\<bar>of_int (round_half_even x) - x\<bar> \<le> 1 / 2"
  unfolding round_half_even_def Let_def
  by (auto simp: abs_if) linarith+

lemma round_half_even_mono:
  assumes "x \<le> y"
  shows "round_half_even x \<le> round_half_even y"
proof (rule ccontr)
  assume "\<not> round_half_even x \<le> round_half_even y"
  then have lt: "round_half_even y + 1 \<le> round_half_even x" by simp
  then have "(of_int (round_half_even y) :: real) + 1 \<le> of_int (round_half_even x)"
    by (metis of_int_1 of_int_add of_int_le_iff)
  moreover have "of_int (round_half_even x) \<le> x + 1 / 2"
    using round_half_even_bounds [of x] by linarith
  moreover have "y - 1 / 2 \<le> of_int (round_half_even y)"
    using round_half_even_bounds [of y] by linarith
  ultimately have "y \<le> x" by linarith
  with assms have "x = y" by simp
  with lt show False by simp
qed

lemma round_half_even_of_int: "round_half_even (of_int n) = n"
  by (simp add: round_half_even_def)

lemma floor_log2_bounds:
  assumes "0 < x"
  shows "2 powr of_int \<lfloor>log 2 x\<rfloor> \<le> x" and "x < 2 powr (of_int \<lfloor>log 2 x\<rfloor> + 1)"
proof -
  have "of_int \<lfloor>log 2 x\<rfloor> \<le> log 2 x" by simp
  then have "2 powr of_int \<lfloor>log 2 x\<rfloor> \<le> 2 powr log 2 x" by simp
  with assms show "2 powr of_int \<lfloor>log 2 x\<rfloor> \<le> x" by simp
  have "log 2 x < of_int \<lfloor>log 2 x\<rfloor> + 1" by linarith
  then have "2 powr log 2 x < 2 powr (of_int \<lfloor>log 2 x\<rfloor> + 1)" by simp
  with assms show "x < 2 powr (of_int \<lfloor>log 2 x\<rfloor> + 1)" by simp
qed

lemma floor_log2_eq:
  assumes "2 powr of_int k \<le> x" and "x < 2 powr (of_int k + 1)"
  shows "\<lfloor>log 2 x\<rfloor> = k"
proof -
  have "0 < 2 powr (of_int k :: real)" by simp
  with assms(1) have pos: "0 < x" by linarith
  have "of_int k \<le> log 2 x" using assms(1) pos by (simp add: le_log_iff)
  moreover have "log 2 x < of_int k + 1" using assms(2) pos by (simp add: log_less_iff)
  ultimately show ?thesis by linarith
qed


lemma ulp_exponent_small:
  assumes "x \<noteq> 0" and "\<bar>x\<bar> < 128"
  shows "ulp_exponent x \<le> - 46"
proof -
  have "log 2 \<bar>x\<bar> < 7"
    using assms by (simp add: log_less_iff)
  then have "\<lfloor>log 2 \<bar>x\<bar>\<rfloor> \<le> 6" by linarith
  then show ?thesis by (simp add: ulp_exponent_def)
qed

lemma fl_error_ulp:
  "\<bar>fl x - x\<bar> \<le> 2 powr of_int (ulp_exponent x) / 2"
proof (cases "x = 0")
  case True
  then show ?thesis by (simp add: fl_def)
next
  case False
  define u :: real where "u = 2 powr of_int (ulp_exponent x)"
  have u: "0 < u" by (simp add: u_def)
  have "fl x - x = (of_int (round_half_even (x / u)) - x / u) * u"
    using False u by (simp add: fl_def u_def algebra_simps)
  then have "\<bar>fl x - x\<bar> = \<bar>of_int (round_half_even (x / u)) - x / u\<bar> * u"
    using u by (simp add: abs_mult)
  also have "\<dots> \<le> (1 / 2) * u"
    using round_half_even_bounds [of "x / u"] u by (intro mult_right_mono) simp_all
  finally show ?thesis by (simp add: u_def)
qed

lemma fl_error_small:
  assumes "\<bar>x\<bar> < 128"
  shows "\<bar>fl x - x\<bar> \<le> 1 / 2 ^ 47"
proof (cases "x = 0")
  case True
  then show ?thesis by (simp add: fl_def)
next
  case False
  from ulp_exponent_small [OF False assms]
  have "(2::real) powr of_int (ulp_exponent x) \<le> 2 powr of_int (- 46)"
    by simp
  also have "(2::real) powr of_int (- 46) = 1 / 2 ^ 46"
    by (simp add: powr_minus_divide)
  finally have "(2::real) powr of_int (ulp_exponent x) / 2 \<le> 1 / 2 ^ 47" by simp
  with fl_error_ulp [of x] show ?thesis by linarith
qed

lemma fl_nonneg: "0 \<le> x \<Longrightarrow> 0 \<le> fl x"
proof -
  assume x: "0 \<le> x"
  have "round_half_even 0 \<le> round_half_even (x / 2 powr of_int (ulp_exponent x))"
    by (rule round_half_even_mono) (simp add: x)
  then have "0 \<le> round_half_even (x / 2 powr of_int (ulp_exponent x))"
    by (simp add: round_half_even_def)
  then show ?thesis by (simp add: fl_def)
qed

lemma ulp_exponent_mono:
  assumes "0 < x" and "x \<le> y"
  shows "ulp_exponent x \<le> ulp_exponent y"
proof -
  have "log 2 x \<le> log 2 y" using assms by simp
  then have "\<lfloor>log 2 x\<rfloor> \<le> \<lfloor>log 2 y\<rfloor>" by (rule floor_mono)
  with assms show ?thesis by (simp add: ulp_exponent_def)
qed

lemma fl_upper:
  assumes "0 < x"
  shows "fl x \<le> 2 powr (of_int (ulp_exponent x) + 53)"
proof -
  define e where "e = ulp_exponent x"
  define u :: real where "u = 2 powr of_int e"
  have u: "0 < u" by (simp add: u_def)
  have "\<lfloor>log 2 x\<rfloor> - 52 \<le> e" using assms by (simp add: e_def ulp_exponent_def)
  then have "of_int \<lfloor>log 2 x\<rfloor> + 1 \<le> (of_int e + 53 :: real)" by linarith
  then have "2 powr (of_int \<lfloor>log 2 x\<rfloor> + 1) \<le> (2::real) powr (of_int e + 53)" by simp
  with floor_log2_bounds(2) [OF assms] have "x \<le> 2 powr (of_int e + 53)" by linarith
  also have "\<dots> = 2 ^ 53 * u" by (simp add: powr_add u_def)
  finally have "x / u \<le> 2 ^ 53" using u by (simp add: field_simps)
  then have "x / u \<le> of_int (2 ^ 53)" by simp
  then have "round_half_even (x / u) \<le> round_half_even (of_int (2 ^ 53))"
    by (rule round_half_even_mono)
  then have "round_half_even (x / u) \<le> 2 ^ 53" by (simp only: round_half_even_of_int)
  then have "(of_int (round_half_even (x / u)) :: real) \<le> 2 ^ 53"
    by (metis of_int_le_iff of_int_numeral of_int_power)
  then have "of_int (round_half_even (x / u)) * u \<le> 2 ^ 53 * u"
    using u by (intro mult_right_mono) simp_all
  moreover have "fl x = of_int (round_half_even (x / u)) * u"
    using assms by (simp add: fl_def u_def e_def)
  ultimately show ?thesis by (simp add: powr_add u_def e_def)
qed

lemma fl_lower:
  assumes "0 < y" and "- 1074 < ulp_exponent y"
  shows "2 powr (of_int (ulp_exponent y) + 52) \<le> fl y"
proof -
  define e where "e = ulp_exponent y"
  define u :: real where "u = 2 powr of_int e"
  have u: "0 < u" by (simp add: u_def)
  from assms have e: "e = \<lfloor>log 2 y\<rfloor> - 52" by (simp add: e_def ulp_exponent_def)
  have "(2::real) powr (of_int e + 52) = 2 powr of_int \<lfloor>log 2 y\<rfloor>" by (simp add: e)
  with floor_log2_bounds(1) [OF assms(1)] have "2 powr (of_int e + 52) \<le> y" by simp
  moreover have "2 powr (of_int e + 52) = 2 ^ 52 * u" by (simp add: powr_add u_def)
  ultimately have "2 ^ 52 \<le> y / u" using u by (simp add: field_simps)
  then have "of_int (2 ^ 52) \<le> y / u" by simp
  then have "round_half_even (of_int (2 ^ 52)) \<le> round_half_even (y / u)"
    by (rule round_half_even_mono)
  then have "2 ^ 52 \<le> round_half_even (y / u)" by (simp only: round_half_even_of_int)
  then have "(2 ^ 52 :: real) \<le> of_int (round_half_even (y / u))"
    by (metis of_int_le_iff of_int_numeral of_int_power)
  then have "2 ^ 52 * u \<le> of_int (round_half_even (y / u)) * u"
    using u by (intro mult_right_mono) simp_all
  moreover have "fl y = of_int (round_half_even (y / u)) * u"
    using assms by (simp add: fl_def u_def e_def)
  ultimately show ?thesis by (simp add: powr_add u_def e_def)
qed

lemma fl_mono:
  assumes "0 \<le> x" and "x \<le> y"
  shows "fl x \<le> fl y"
proof (cases "x = 0")
  case True
  with assms fl_nonneg [of y] show ?thesis by (simp add: fl_def)
next
  case False
  with assms have x: "0 < x" and y: "0 < y" by simp_all
  from ulp_exponent_mono [OF x assms(2)]
  consider "ulp_exponent x = ulp_exponent y" | "ulp_exponent x < ulp_exponent y" by linarith
  then show ?thesis
  proof cases
    case 1
    define u :: real where "u = 2 powr of_int (ulp_exponent y)"
    have u: "0 < u" by (simp add: u_def)
    have "x / u \<le> y / u" using assms(2) u by (simp add: divide_right_mono)
    then have "round_half_even (x / u) \<le> round_half_even (y / u)"
      by (rule round_half_even_mono)
    then have "of_int (round_half_even (x / u)) * u \<le> of_int (round_half_even (y / u)) * u"
      using u by (intro mult_right_mono) simp_all
    with x y 1 show ?thesis by (simp add: fl_def u_def)
  next
    case 2
    have "- 1074 \<le> ulp_exponent x" by (simp add: ulp_exponent_def)
    with 2 have big: "- 1074 < ulp_exponent y" by simp
    from 2 have "of_int (ulp_exponent x) + 53 \<le> (of_int (ulp_exponent y) + 52 :: real)"
      by linarith
    then have "(2::real) powr (of_int (ulp_exponent x) + 53) \<le> 2 powr (of_int (ulp_exponent y) + 52)"
      by simp
    with fl_upper [OF x] fl_lower [OF y big] show ?thesis by linarith
  qed
qed

lemma fl_binade:
  assumes "2 powr of_int k \<le> \<bar>x\<bar>" and "\<bar>x\<bar> < 2 powr (of_int k + 1)" and "- 1022 \<le> k"
  shows "fl x = of_int (round_half_even (x / 2 powr of_int (k - 52))) * 2 powr of_int (k - 52)"
proof -
  have "0 < 2 powr (of_int k :: real)" by simp
  with assms(1) have nz: "x \<noteq> 0" by auto
  from floor_log2_eq [OF assms(1,2)] assms(3) have "ulp_exponent x = k - 52"
    by (simp add: ulp_exponent_def)
  with nz show ?thesis by (simp add: fl_def)
qed

section \<open>Rounded percentages\<close>

lemma sum_list_diff_bound:
  "(\<forall>x \<in> set xs. \<bar>f x - g x\<bar> \<le> e) \<Longrightarrow>
   \<bar>sum_list (map f xs) - sum_list (map g xs)\<bar> \<le> real (length xs) * e"
proof (induction xs)
  case Nil
  then show ?case by simp
next
  case (Cons a xs)
  then have "\<bar>f a - g a\<bar> \<le> e"
    and "\<bar>sum_list (map f xs) - sum_list (map g xs)\<bar> \<le> real (length xs) * e"
    by simp_all
  then show ?case by (simp add: algebra_simps)
qed

lemma update_fresh: "k \<notin> fst ` set al \<Longrightarrow> AList.update k v al = al @ [(k, v)]"
  by (induction al) auto

lemma foldl_update_distinct:
  "distinct (map fst (acc @ kvs)) \<Longrightarrow>
   foldl (\<lambda>d (k, v). AList.update k v d) acc kvs = acc @ kvs"
proof (induction kvs arbitrary: acc)
  case Nil
  then show ?case by simp
next
  case (Cons kv kvs)
  obtain k v where kv: "kv = (k, v)" by (cases kv)
  from Cons.prems have fresh: "k \<notin> fst ` set acc" by (auto simp: kv)
  from Cons.prems have "distinct (map fst ((acc @ [(k, v)]) @ kvs))" by (simp add: kv)
  from Cons.IH [OF this] show ?case by (simp add: kv update_fresh [OF fresh])
qed

lemma py_dict_distinct: "distinct (map fst kvs) \<Longrightarrow> py_dict kvs = kvs"
  using foldl_update_distinct [of "[]" kvs] by (simp add: py_dict_def)

lemma card_CLASSES_VALIDES: "card CLASSES_VALIDES = 4"
  by (simp add: CLASSES_VALIDES_def)

lemma valid_classes_length:
  assumes "distinct cls" and "set cls \<subseteq> CLASSES_VALIDES"
  shows "length cls \<le> 4"
proof -
  have "finite CLASSES_VALIDES" by (simp add: CLASSES_VALIDES_def)
  then have "card (set cls) \<le> card CLASSES_VALIDES" using assms(2) by (rule card_mono)
  with assms(1) show ?thesis by (simp add: distinct_card CLASSES_VALIDES_def)
qed

lemma predict_loaded:
  assumes "p_pipeline self = Some pl"
    and "pl_predict pl texte = Inr cl"
    and "pl_predict_proba pl texte = Inr ps"
    and "pl_classes pl = Inr cls"
    and "ps \<noteq> []"
  shows "Predictor_predict self texte =
           Inr \<lparr> classe = cl,
                 confiance = py_round1 (float_mul (Max (set ps)) 100),
                 probabilites = py_dict (zip cls (map (\<lambda>prob. py_round1 (float_mul prob 100)) ps)) \<rparr>"
  using assms by (simp add: Predictor_predict_def check_loaded_Some np_max_def)

lemma tenths_error:
  "\<bar>of_int (round_half_even (x * 10)) / 10 - x\<bar> \<le> 1 / 20"
proof -
  define d where "d = of_int (round_half_even (x * 10)) - x * 10"
  have eq: "of_int (round_half_even (x * 10)) / 10 - x = d / 10"
    by (simp add: d_def diff_divide_distrib)
  have "\<bar>d\<bar> \<le> 1 / 2"
    unfolding d_def by (rule round_half_even_bounds)
  moreover have "\<bar>d / 10\<bar> = \<bar>d\<bar> / 10" by simp
  ultimately show ?thesis unfolding eq by linarith
qed

lemma percentage_tenths:
  assumes "0 \<le> p" and "p \<le> 101 / 100"
  shows "\<bar>of_int (round_half_even (float_mul p 100 * 10)) / 10 - p * 100\<bar> \<le> 1 / 20 + 1 / 2 ^ 47"
    and "\<bar>py_round1 (float_mul p 100) - of_int (round_half_even (float_mul p 100 * 10)) / 10\<bar> \<le> 1 / 2 ^ 47"
proof -
  define x where "x = float_mul p 100"
  define t :: real where "t = of_int (round_half_even (x * 10)) / 10"
  have small: "(1 / 2 ^ 47 :: real) \<le> 1" by simp
  have p100: "0 \<le> p * 100" "p * 100 \<le> 101" using assms by simp_all
  then have "\<bar>p * 100\<bar> < 128" by linarith
  then have x: "\<bar>x - p * 100\<bar> \<le> 1 / 2 ^ 47"
    unfolding x_def float_mul_def by (rule fl_error_small)
  have "\<bar>t - x\<bar> \<le> 1 / 20" unfolding t_def by (rule tenths_error)
  with x have first: "\<bar>t - p * 100\<bar> \<le> 1 / 20 + 1 / 2 ^ 47" by linarith
  then show "\<bar>of_int (round_half_even (float_mul p 100 * 10)) / 10 - p * 100\<bar> \<le> 1 / 20 + 1 / 2 ^ 47"
    by (simp only: t_def x_def)
  from first p100 small have "\<bar>t\<bar> < 128" by linarith
  then have "\<bar>fl t - t\<bar> \<le> 1 / 2 ^ 47" by (rule fl_error_small)
  then show "\<bar>py_round1 (float_mul p 100) - of_int (round_half_even (float_mul p 100 * 10)) / 10\<bar> \<le> 1 / 2 ^ 47"
    by (simp only: py_round1_def t_def x_def)
qed

lemma percentage_mono:
  assumes "0 \<le> p" and "p \<le> q"
  shows "py_round1 (float_mul p 100) \<le> py_round1 (float_mul q 100)"
proof -
  have x: "0 \<le> float_mul p 100" and xy: "float_mul p 100 \<le> float_mul q 100"
    using assms by (simp_all add: float_mul_def fl_nonneg fl_mono)
  from xy have k: "round_half_even (float_mul p 100 * 10) \<le> round_half_even (float_mul q 100 * 10)"
    by (intro round_half_even_mono) simp
  have "round_half_even 0 \<le> round_half_even (float_mul p 100 * 10)"
    using x by (intro round_half_even_mono) simp
  then have "0 \<le> round_half_even (float_mul p 100 * 10)" by (simp add: round_half_even_def)
  with k show ?thesis
    unfolding py_round1_def by (intro fl_mono) (simp_all add: divide_right_mono)
qed

lemma Max_percentage:
  assumes "ps \<noteq> []" and "\<forall>p \<in> set ps. 0 \<le> p"
  shows "Max (set (map (\<lambda>p. py_round1 (float_mul p 100)) ps)) = py_round1 (float_mul (Max (set ps)) 100)"
proof (rule Max_eqI)
  show "finite (set (map (\<lambda>p. py_round1 (float_mul p 100)) ps))" by simp
  have "Max (set ps) \<in> set ps" using assms(1) by simp
  then show "py_round1 (float_mul (Max (set ps)) 100) \<in> set (map (\<lambda>p. py_round1 (float_mul p 100)) ps)"
    by simp
  fix y assume "y \<in> set (map (\<lambda>p. py_round1 (float_mul p 100)) ps)"
  then obtain p where p: "p \<in> set ps" and y: "y = py_round1 (float_mul p 100)" by auto
  from p assms(2) have "0 \<le> p" by simp
  moreover from p have "p \<le> Max (set ps)" by simp
  ultimately show "y \<le> py_round1 (float_mul (Max (set ps)) 100)"
    unfolding y by (rule percentage_mono)
qed

lemma tenths_integral:
  fixes K :: int
  assumes "\<bar>of_int K / 10 - (100 :: real)\<bar> < 3 / 10"
  shows "\<bar>of_int K / 10 - (100 :: real)\<bar> \<le> 2 / 10"
proof -
  define r :: real where "r = of_int K"
  from assms have "\<bar>r / 10 - 100\<bar> < 3 / 10" by (simp only: r_def)
  then have "r < 1003" and "997 < r" by linarith+
  then have "K < 1003" and "997 < K" by (simp_all add: r_def)
  then have "K \<le> 1002" and "998 \<le> K" by simp_all
  then have "r \<le> 1002" and "998 \<le> r" by (simp_all add: r_def)
  then have "\<bar>r / 10 - 100\<bar> \<le> 2 / 10" by linarith
  then show ?thesis by (simp only: r_def)
qed

lemma member_le_sum_list_real:
  "(\<forall>x \<in> set xs. 0 \<le> x) \<Longrightarrow> p \<in> set xs \<Longrightarrow> p \<le> (sum_list xs :: real)"
proof (induction xs)
  case Nil
  then show ?case by simp
next
  case (Cons a xs)
  then have "0 \<le> a" and "0 \<le> sum_list xs" by (simp_all add: sum_list_nonneg)
  with Cons show ?case by auto
qed

lemma sum_list_tenths:
  "sum_list (map (\<lambda>k. of_int k / 10) ks) = (of_int (sum_list ks) / 10 :: real)"
  by (induction ks) (simp_all add: add_divide_distrib)

lemma rounded_percentages:
  assumes nonneg: "\<forall>p \<in> set ps. 0 \<le> p" and total: "\<bar>sum_list ps - 1\<bar> \<le> 1 / 10 ^ 9"
    and n: "length ps \<le> 4"
  defines "ks \<equiv> map (\<lambda>p. round_half_even (float_mul p 100 * 10)) ps"
  shows "map (\<lambda>p. py_round1 (float_mul p 100)) ps = map (\<lambda>k. fl (of_int k / 10)) ks"
    and "\<bar>sum_list (map (\<lambda>k. of_int k / 10) ks) - (100 :: real)\<bar> \<le> 2 / 10"
    and "\<bar>sum_list (map (\<lambda>p. py_round1 (float_mul p 100)) ps) - 100\<bar> \<le> 2 / 10 + 1 / 2 ^ 45"
proof -
  let ?t = "\<lambda>p. of_int (round_half_even (float_mul p 100 * 10)) / 10 :: real"
  let ?d = "\<lambda>p. py_round1 (float_mul p 100)"
  show "map ?d ps = map (\<lambda>k. fl (of_int k / 10)) ks"
    by (simp add: ks_def py_round1_def comp_def)
  have le: "p \<le> 101 / 100" if "p \<in> set ps" for p
  proof -
    from member_le_sum_list_real [OF nonneg that] have "p \<le> sum_list ps" .
    moreover have "(1 / 10 ^ 9 :: real) \<le> 1 / 100" by simp
    ultimately show ?thesis using total by linarith
  qed
  have n4: "real (length ps) \<le> 4" using n by simp
  have "\<bar>sum_list (map ?t ps) - sum_list (map (\<lambda>p. p * 100) ps)\<bar>
          \<le> real (length ps) * (1 / 20 + 1 / 2 ^ 47)"
    by (rule sum_list_diff_bound) (use nonneg le percentage_tenths(1) in blast)
  also have "\<dots> \<le> 4 * (1 / 20 + 1 / 2 ^ 47)"
    using n4 by (intro mult_right_mono) simp_all
  finally have a: "\<bar>sum_list (map ?t ps) - sum_list (map (\<lambda>p. p * 100) ps)\<bar>
      \<le> 4 * (1 / 20 + 1 / 2 ^ 47)" .
  have "sum_list (map (\<lambda>p. p * 100) ps) = sum_list ps * 100"
    by (simp add: sum_list_mult_const)
  moreover have "(1 / 10 ^ 9 :: real) * 100 = 1 / 10 ^ 7" by simp
  with total have "\<bar>sum_list ps * 100 - 100\<bar> \<le> 1 / 10 ^ 7" by linarith
  ultimately have b: "\<bar>sum_list (map (\<lambda>p. p * 100) ps) - 100\<bar> \<le> 1 / 10 ^ 7" by simp
  have c: "(4 * (1 / 20 + 1 / 2 ^ 47) + 1 / 10 ^ 7 :: real) < 3 / 10" by simp
  from a b c have "\<bar>sum_list (map ?t ps) - 100\<bar> < 3 / 10" by linarith
  moreover have ts: "sum_list (map ?t ps) = of_int (sum_list ks) / 10"
    using sum_list_tenths [of ks] by (simp add: ks_def comp_def)
  ultimately have "\<bar>of_int (sum_list ks) / 10 - (100 :: real)\<bar> \<le> 2 / 10"
    by (intro tenths_integral) simp
  then have t: "\<bar>sum_list (map ?t ps) - 100\<bar> \<le> 2 / 10" by (simp only: ts)
  then show "\<bar>sum_list (map (\<lambda>k. of_int k / 10) ks) - (100 :: real)\<bar> \<le> 2 / 10"
    by (simp add: ks_def comp_def)
  have "\<bar>sum_list (map ?d ps) - sum_list (map ?t ps)\<bar> \<le> real (length ps) * (1 / 2 ^ 47)"
    by (rule sum_list_diff_bound) (use nonneg le percentage_tenths(2) in blast)
  also have "\<dots> \<le> 4 * (1 / 2 ^ 47)"
    using n4 by (intro mult_right_mono) simp_all
  also have "\<dots> = 1 / 2 ^ 45" by simp
  finally have "\<bar>sum_list (map ?d ps) - sum_list (map ?t ps)\<bar> \<le> 1 / 2 ^ 45" .
  with t show "\<bar>sum_list (map ?d ps) - 100\<bar> \<le> 2 / 10 + 1 / 2 ^ 45" by linarith
qed

lemma fl_251: "fl (251 / 10) = 3532510957718733 / 2 ^ 47"
  by (subst fl_binade [of 4]) (simp_all add: powr_minus_divide round_half_even_def Let_def)

lemma fl_249: "fl (249 / 10) = 3504363460047667 / 2 ^ 47"
  by (subst fl_binade [of 4]) (simp_all add: powr_minus_divide round_half_even_def Let_def)

lemma float_mul_2505: "float_mul (4512606826625237 / 2 ^ 54) 100 = 7050948166601933 / 2 ^ 48"
  unfolding float_mul_def
  by (subst fl_binade [of 4]) (simp_all add: powr_minus_divide round_half_even_def Let_def)

lemma float_mul_2485: "float_mul (4476578029606273 / 2 ^ 54) 100 = 3497326585629901 / 2 ^ 47"
  unfolding float_mul_def
  by (subst fl_binade [of 4]) (simp_all add: powr_minus_divide round_half_even_def Let_def)

lemma percentage_2505: "py_round1 (float_mul (4512606826625237 / 2 ^ 54) 100) = fl (251 / 10)"
  unfolding float_mul_2505 by (simp add: py_round1_def round_half_even_def Let_def)

lemma percentage_2485: "py_round1 (float_mul (4476578029606273 / 2 ^ 54) 100) = fl (249 / 10)"
  unfolding float_mul_2485 by (simp add: py_round1_def round_half_even_def Let_def)

lemma demo_probabilities_sum: "sum_list [4512606826625237 / 2 ^ 54, 4512606826625237 / 2 ^ 54,
          4512606826625237 / 2 ^ 54, 4476578029606273 / 2 ^ 54 :: real] = 1"
  by simp

lemma demo_predict:
  "Predictor_predict \<lparr> p_pipeline = Some demo_pipeline \<rparr> texte =
     Inr \<lparr> classe = ''Commande'', confiance = fl (251 / 10),
           probabilites =
             [(''Commande'', fl (251 / 10)), (''Information'', fl (251 / 10)),
              (CHR ''R'' # CHR 0xE9 # ''clamation'', fl (251 / 10)), (''Urgence'', fl (249 / 10))] \<rparr>"
  unfolding Predictor_predict_def demo_pipeline_def
  by (simp add: check_loaded_def np_max_def py_dict_def
      percentage_2505 [simplified] percentage_2485 [simplified])

lemma demo_sum_exceeds:
  "2 / 10 < \<bar>sum_list [fl (251 / 10), fl (251 / 10), fl (251 / 10), fl (249 / 10)] - 100\<bar>"
  by (simp add: fl_251 fl_249)

lemma demo_float_sum:
  "fl (fl (fl (fl (251 / 10) + fl (251 / 10)) + fl (251 / 10)) + fl (249 / 10)) = 7050948166601934 / 2 ^ 46"
proof -
  have s1: "fl (fl (251 / 10) + fl (251 / 10)) = 3532510957718733 / 2 ^ 46"
    unfolding fl_251
    by (subst fl_binade [of 5]) (simp_all add: powr_minus_divide round_half_even_def Let_def)
  have s2: "fl (3532510957718733 / 2 ^ 46 + fl (251 / 10)) = 5298766436578100 / 2 ^ 46"
    unfolding fl_251
    by (subst fl_binade [of 6]) (simp_all add: powr_minus_divide round_half_even_def Let_def)
  have s3: "fl (5298766436578100 / 2 ^ 46 + fl (249 / 10)) = 7050948166601934 / 2 ^ 46"
    unfolding fl_249
    by (subst fl_binade [of 6]) (simp_all add: powr_minus_divide round_half_even_def Let_def)
  show ?thesis unfolding s1 s2 s3 ..
qed

lemma demo_float_sum_exceeds:
  "fl (2 / 10) < fl (fl (fl (fl (fl (251 / 10) + fl (251 / 10)) + fl (251 / 10)) + fl (249 / 10)) - 100)"
proof -
  have d: "fl (7050948166601934 / 2 ^ 46 - 100) = 7205759403793408 / 2 ^ 55"
    by (subst fl_binade [of "- 3"]) (simp_all add: powr_minus_divide round_half_even_def Let_def)
  have t: "fl (2 / 10) = 7205759403792794 / 2 ^ 55"
    by (subst fl_binade [of "- 3"]) (simp_all add: powr_minus_divide round_half_even_def Let_def)
  show ?thesis unfolding demo_float_sum d t by simp
qed

text \<open>
  Claim C1, as stated, fails. The probabilities below are doubles and sum to exactly 1,
  and the pipeline keeps the library's contract, yet the four percentages that
  \<^verbatim>\<open>predict\<close> returns (25.1, 25.1, 25.1 and 24.9 as doubles) sum to more than 100.2:
  their exact sum differs from 100 by more than 0.2, and so does their sum in float
  arithmetic, taken from left to right, compared with the double 0.2.
\<close>

theorem predict_sum_exceeds_tolerance:
  "sum_list [4512606826625237 / 2 ^ 54, 4512606826625237 / 2 ^ 54,
             4512606826625237 / 2 ^ 54, 4476578029606273 / 2 ^ 54 :: real] = 1 \<and>
   proba_contract demo_pipeline ''Commande de riz'' \<and>
   Predictor_predict \<lparr> p_pipeline = Some demo_pipeline \<rparr> ''Commande de riz'' =
     Inr \<lparr> classe = ''Commande'', confiance = fl (251 / 10),
           probabilites =
             [(''Commande'', fl (251 / 10)), (''Information'', fl (251 / 10)),
              (CHR ''R'' # CHR 0xE9 # ''clamation'', fl (251 / 10)), (''Urgence'', fl (249 / 10))] \<rparr> \<and>
   fl (251 / 10) = 3532510957718733 / 2 ^ 47 \<and>
   fl (249 / 10) = 3504363460047667 / 2 ^ 47 \<and>
   2 / 10 < \<bar>sum_list [fl (251 / 10), fl (251 / 10), fl (251 / 10), fl (249 / 10)] - 100\<bar> \<and>
   fl (2 / 10) <
     fl (fl (fl (fl (fl (251 / 10) + fl (251 / 10)) + fl (251 / 10)) + fl (249 / 10)) - 100)"
proof -
  have "proba_contract demo_pipeline ''Commande de riz''"
    by (simp add: proba_contract_def demo_pipeline_def CLASSES_VALIDES_def)
  with demo_probabilities_sum demo_predict fl_251 fl_249 demo_sum_exceeds demo_float_sum_exceeds
  show ?thesis by (intro conjI)
qed

text \<open>
  Claim C1, amended. For a loaded predictor and a text at which the pipeline keeps the
  library's contract (one non-negative probability per category of the four-category
  set, summing to 1 within floating-point tolerance), \<^verbatim>\<open>predict\<close> returns a result with
  one percentage per category. Each percentage is the double nearest to a whole number
  of tenths; those tenths sum to 100 within 0.2, and the doubles themselves sum to 100
  within 0.2 plus 2 to the power -45. The reported confidence is the maximum of the
  percentages.
\<close>

theorem predict_percentages_sum_to_100:
  assumes "p_pipeline self = Some pl" and "proba_contract pl texte"
  shows "\<exists>r ks. Predictor_predict self texte = Inr r \<and>
           pl_classes pl = Inr (map fst (probabilites r)) \<and>
           map snd (probabilites r) = map (\<lambda>k. fl (of_int k / 10)) ks \<and>
           \<bar>sum_list (map (\<lambda>k. of_int k / 10) ks) - (100 :: real)\<bar> \<le> 2 / 10 \<and>
           \<bar>sum_list (map snd (probabilites r)) - 100\<bar> \<le> 2 / 10 + 1 / 2 ^ 45 \<and>
           confiance r = Max (snd ` set (probabilites r))"
proof -
  from assms(2) obtain cl ps cls where out: "pl_predict pl texte = Inr cl"
    "pl_predict_proba pl texte = Inr ps" "pl_classes pl = Inr cls"
    and len: "length ps = length cls" and dist: "distinct cls"
    and valid: "set cls \<subseteq> CLASSES_VALIDES"
    and nonneg: "\<forall>p \<in> set ps. 0 \<le> p" and total: "\<bar>sum_list ps - 1\<bar> \<le> 1 / 10 ^ 9"
    by (auto simp: proba_contract_def list_all_iff split: sum.splits)
  let ?f = "\<lambda>prob. py_round1 (float_mul prob 100)"
  let ?ks = "map (\<lambda>p. round_half_even (float_mul p 100 * 10)) ps"
  let ?r = "\<lparr> classe = cl, confiance = py_round1 (float_mul (Max (set ps)) 100),
              probabilites = zip cls (map ?f ps) \<rparr>"
  have ne: "ps \<noteq> []"
  proof
    assume "ps = []"
    with total show False by simp
  qed
  have keys: "map fst (zip cls (map ?f ps)) = cls" and vals: "map snd (zip cls (map ?f ps)) = map ?f ps"
    using len by simp_all
  from keys dist have "py_dict (zip cls (map ?f ps)) = zip cls (map ?f ps)"
    by (simp add: py_dict_distinct)
  with predict_loaded [OF assms(1) out ne] have run: "Predictor_predict self texte = Inr ?r"
    by simp
  have n: "length ps \<le> 4" using valid_classes_length [OF dist valid] len by simp
  note rp = rounded_percentages [OF nonneg total n]
  have "snd ` set (zip cls (map ?f ps)) = set (map ?f ps)"
    using vals by (metis set_map)
  with Max_percentage [OF ne nonneg]
  have conf: "confiance ?r = Max (snd ` set (probabilites ?r))" by simp
  have pr: "probabilites ?r = zip cls (map ?f ps)" by simp
  have c1: "pl_classes pl = Inr (map fst (probabilites ?r))"
    unfolding pr keys by (rule out(3))
  have c2: "map snd (probabilites ?r) = map (\<lambda>k. fl (of_int k / 10)) ?ks"
    unfolding pr vals by (rule rp(1))
  have c3: "\<bar>sum_list (map snd (probabilites ?r)) - 100\<bar> \<le> 2 / 10 + 1 / 2 ^ 45"
    unfolding pr vals by (rule rp(3))
  from run c1 c2 rp(2) c3 conf show ?thesis by blast
qed

theorem predict_percentages_sum_to_100_witness:
  "proba_contract demo_pipeline ''Commande de riz'' \<and>
   Predictor_predict \<lparr> p_pipeline = Some demo_pipeline \<rparr> ''Commande de riz'' =
     Inr \<lparr> classe = ''Commande'', confiance = fl (251 / 10),
           probabilites =
             [(''Commande'', fl (251 / 10)), (''Information'', fl (251 / 10)),
              (CHR ''R'' # CHR 0xE9 # ''clamation'', fl (251 / 10)), (''Urgence'', fl (249 / 10))] \<rparr> \<and>
   \<bar>sum_list [251 / 10, 251 / 10, 251 / 10, 249 / 10] - (100 :: real)\<bar> \<le> 2 / 10 \<and>
   \<bar>sum_list [fl (251 / 10), fl (251 / 10), fl (251 / 10), fl (249 / 10)] - 100\<bar>
     \<le> 2 / 10 + 1 / 2 ^ 45 \<and>
   Max (set [fl (251 / 10), fl (251 / 10), fl (251 / 10), fl (249 / 10)]) = fl (251 / 10)"
proof -
  have c: "proba_contract demo_pipeline ''Commande de riz''"
    by (simp add: proba_contract_def demo_pipeline_def CLASSES_VALIDES_def)
  from predict_percentages_sum_to_100
    [of "\<lparr> p_pipeline = Some demo_pipeline \<rparr>" demo_pipeline "''Commande de riz''"] c
  obtain r and ks :: "int list" where r: "Predictor_predict \<lparr> p_pipeline = Some demo_pipeline \<rparr> ''Commande de riz'' = Inr r"
    and s: "\<bar>sum_list (map snd (probabilites r)) - 100\<bar> \<le> 2 / 10 + 1 / 2 ^ 45"
    and m: "confiance r = Max (snd ` set (probabilites r))"
    by auto
  from r have r': "r = \<lparr> classe = ''Commande'', confiance = fl (251 / 10),
           probabilites =
             [(''Commande'', fl (251 / 10)), (''Information'', fl (251 / 10)),
              (CHR ''R'' # CHR 0xE9 # ''clamation'', fl (251 / 10)), (''Urgence'', fl (249 / 10))] \<rparr>"
    by (simp add: demo_predict)
  from s have "\<bar>sum_list [fl (251 / 10), fl (251 / 10), fl (251 / 10), fl (249 / 10)] - 100\<bar>
     \<le> 2 / 10 + 1 / 2 ^ 45"
    unfolding r' by simp
  moreover from m have "Max (set [fl (251 / 10), fl (251 / 10), fl (251 / 10), fl (249 / 10)]) = fl (251 / 10)"
    unfolding r' by simp
  moreover have "\<bar>sum_list [251 / 10, 251 / 10, 251 / 10, 249 / 10] - (100 :: real)\<bar> \<le> 2 / 10"
    by simp
  ultimately show ?thesis using c demo_predict by (intro conjI)
qed

section \<open>Validation of the dataset\<close>

lemma strip_valid_label: "c \<in> CLASSES_VALIDES \<Longrightarrow> strip c = c"
  by (auto simp: CLASSES_VALIDES_def strip_def is_space_def)

lemma validate_cases:
  "validate df = Inl ValueError \<or> validate df = Inl AttributeError \<or>
   validate df =
     Inr ((if textes_courts df \<noteq> [] then [Warning_short_texts (length (textes_courts df))] else [])
          @ [Info ''Validation du dataset : OK''])"
  by (simp add: validate_def Let_def str_accessor_def)

lemma validate_checks:
  fixes df
  defines "cols \<equiv> {''texte'', ''classe''} \<subseteq> set (columns df)"
    and "rows_valid \<equiv> \<forall>r \<in> set (rows df). r_texte r \<noteq> Null \<and> (\<exists>c \<in> CLASSES_VALIDES. r_classe r = Text c)"
    and "digits \<equiv> numeric_dtype (map r_texte (rows df))"
  shows "validate df = Inl ValueError \<longleftrightarrow> \<not> (cols \<and> rows_valid)"
    and "validate df = Inl AttributeError \<longleftrightarrow> cols \<and> rows_valid \<and> digits"
    and "(\<exists>events. validate df = Inr events) \<longleftrightarrow> cols \<and> rows_valid \<and> \<not> digits"
proof -
  have nulls: "list_ex (\<lambda>n. n \<noteq> 0)
                 [length (filter (\<lambda>r. r_texte r = Null) (rows df)),
                  length (filter (\<lambda>r. r_classe r = Null) (rows df))] \<longleftrightarrow>
               (\<exists>r \<in> set (rows df). r_texte r = Null \<or> r_classe r = Null)"
    by (auto simp: filter_empty_conv)
  have unknown: "set (map r_classe (rows df)) - Text ` CLASSES_VALIDES \<noteq> {} \<longleftrightarrow>
               (\<exists>r \<in> set (rows df). r_classe r \<notin> Text ` CLASSES_VALIDES)"
    by auto
  have rows_ok: "rows_valid \<longleftrightarrow>
      \<not> (\<exists>r \<in> set (rows df). r_texte r = Null \<or> r_classe r = Null) \<and>
      \<not> (\<exists>r \<in> set (rows df). r_classe r \<notin> Text ` CLASSES_VALIDES)"
    unfolding rows_valid_def by (rule iffI; clarsimp) fastforce+
  have cols': "cols \<longleftrightarrow> {''texte'', ''classe''} - set (columns df) = {}"
    unfolding cols_def by auto
  show "validate df = Inl ValueError \<longleftrightarrow> \<not> (cols \<and> rows_valid)"
    unfolding validate_def Let_def nulls unknown rows_ok cols' str_accessor_def digits_def
    by (auto split: if_splits)
  show "validate df = Inl AttributeError \<longleftrightarrow> cols \<and> rows_valid \<and> digits"
    unfolding validate_def Let_def nulls unknown rows_ok cols' str_accessor_def digits_def
    by (auto split: if_splits)
  show "(\<exists>events. validate df = Inr events) \<longleftrightarrow> cols \<and> rows_valid \<and> \<not> digits"
    unfolding validate_def Let_def nulls unknown rows_ok cols' str_accessor_def digits_def
    by (auto split: if_splits)
qed


lemma load_accepted:
  assumes "DataLoader_load fs self = Inr ((X, y), events)"
  shows "\<forall>l \<in> set y. l \<in> Text ` CLASSES_VALIDES"
proof -
  from assms obtain df where "read_csv fs self = Inr df"
    by (cases "read_csv fs self") (simp_all add: DataLoader_load_def)
  with assms have v: "validate df = Inr events"
    and y: "y = map str_strip (map r_classe (rows df))"
    by (auto simp: DataLoader_load_def str_accessor_def split: sum.splits if_splits)
  from v validate_checks(3) [of df]
  have ok: "\<forall>r \<in> set (rows df). \<exists>c \<in> CLASSES_VALIDES. r_classe r = Text c" by blast
  show ?thesis
  proof
    fix l assume "l \<in> set y"
    then obtain r where "r \<in> set (rows df)" and l: "l = str_strip (r_classe r)"
      unfolding y by auto
    with ok obtain c where "c \<in> CLASSES_VALIDES" and "r_classe r = Text c" by blast
    then show "l \<in> Text ` CLASSES_VALIDES"
      by (simp add: l str_strip_def strip_valid_label)
  qed
qed

text \<open>
  Claim C6 holds of the specification but not of the code. A CSV file whose \<^verbatim>\<open>texte\<close>
  column holds digits only (\<^verbatim>\<open>12345,Information\<close> and \<^verbatim>\<open>678,Urgence\<close>) has both columns, no
  null cell and valid labels; \<^verbatim>\<open>_validate\<close> reaches the test of the short texts, where
  \<^verbatim>\<open>df["texte"].str\<close> raises \<^verbatim>\<open>AttributeError\<close>: the length test that should only warn
  ends the loading, and with an error that is not the data error.
\<close>

theorem validate_digits_column_raises:
  "validate digits_dataframe = Inl AttributeError \<and>
   DataLoader_load [''data/raw/dataset.csv'' \<mapsto> digits_dataframe]
       (DataLoader_init default_settings None) = Inl AttributeError"
  by (simp add: validate_def digits_dataframe_def CLASSES_VALIDES_def str_accessor_def
      numeric_dtype_def DataLoader_load_def DataLoader_init_def read_csv_def default_settings_def)

text \<open>
  What \<^verbatim>\<open>_validate\<close> does accept. The category set has exactly four members.
  \<^verbatim>\<open>_validate\<close> returns exactly when both columns are present, every row has a non-null
  text and a label of the category set, and the \<^verbatim>\<open>texte\<close> column is not numeric; it then
  logs one warning when some text is shorter than 5 characters. It raises
  \<^verbatim>\<open>AttributeError\<close> exactly when only the last condition fails, and \<^verbatim>\<open>ValueError\<close>
  otherwise. Every dataset that \<^verbatim>\<open>DataLoader.load\<close> returns has only labels of the
  category set.
\<close>

theorem validate_accepts_only_valid_rows:
  "card CLASSES_VALIDES = 4 \<and>
   (validate df = Inl ValueError \<or> validate df = Inl AttributeError \<or>
    validate df =
      Inr ((if textes_courts df \<noteq> [] then [Warning_short_texts (length (textes_courts df))] else [])
           @ [Info ''Validation du dataset : OK''])) \<and>
   ((\<exists>events. validate df = Inr events) \<longleftrightarrow>
      {''texte'', ''classe''} \<subseteq> set (columns df) \<and>
      (\<forall>r \<in> set (rows df). r_texte r \<noteq> Null \<and> (\<exists>c \<in> CLASSES_VALIDES. r_classe r = Text c)) \<and>
      \<not> numeric_dtype (map r_texte (rows df))) \<and>
   (validate df = Inl AttributeError \<longleftrightarrow>
      {''texte'', ''classe''} \<subseteq> set (columns df) \<and>
      (\<forall>r \<in> set (rows df). r_texte r \<noteq> Null \<and> (\<exists>c \<in> CLASSES_VALIDES. r_classe r = Text c)) \<and>
      numeric_dtype (map r_texte (rows df))) \<and>
   (DataLoader_load fs self = Inr ((X, y), events) \<longrightarrow>
      (\<forall>l \<in> set y. l \<in> Text ` CLASSES_VALIDES))"
  using card_CLASSES_VALIDES validate_cases [of df] validate_checks(2,3) [of df]
    load_accepted [of fs self X y events]
  by blast

theorem validate_accepts_only_valid_rows_witness:
  "validate demo_dataframe =
     Inr [Warning_short_texts 2, Info ''Validation du dataset : OK''] \<and>
   \<not> numeric_dtype (map r_texte (rows demo_dataframe)) \<and>
   DataLoader_load [''data/raw/dataset.csv'' \<mapsto> demo_dataframe]
       (DataLoader_init default_settings None) =
     Inr (([Text ''Urgent ! Paiement Wave bloque.'', Text ''Prix'',
            Text ''Je veux commander 5 cartons d'eau.'', Text ''ok ?''],
           [Text ''Urgence'', Text ''Information'', Text ''Commande'',
            Text (CHR ''R'' # CHR 0xE9 # ''clamation'')]),
          [Warning_short_texts 2, Info ''Validation du dataset : OK'']) \<and>
   validate digits_dataframe = Inl AttributeError \<and>
   numeric_dtype (map r_texte (rows digits_dataframe))"
  using validate_accepts_only_valid_rows
    [of demo_dataframe "[''data/raw/dataset.csv'' \<mapsto> demo_dataframe]"
        "DataLoader_init default_settings None"]
    validate_accepts_only_valid_rows [of digits_dataframe]
  by (simp add: validate_def demo_dataframe_def digits_dataframe_def CLASSES_VALIDES_def
      textes_courts_def DataLoader_load_def DataLoader_init_def read_csv_def default_settings_def
      strip_def str_strip_def is_space_def str_accessor_def numeric_dtype_def)

section \<open>The fitted pipeline at inference\<close>

lemma sum_list_exp_pos:
  assumes "zs \<noteq> []"
  shows "0 < sum_list (map exp (zs :: real list))"
proof -
  obtain z zs' where zs: "zs = z # zs'" using assms by (cases zs) auto
  have "0 \<le> sum_list (map exp zs')" by (rule sum_list_nonneg) auto
  moreover have "0 < exp z" by simp
  ultimately show ?thesis unfolding zs by (simp add: add_pos_nonneg)
qed

lemma sum_list_divide: "sum_list (map (\<lambda>z. f z / c) zs) = sum_list (map f zs) / (c :: real)"
  by (induction zs) (simp_all add: add_divide_distrib)

lemma softmax_returns:
  assumes "zs \<noteq> []"
  shows "softmax zs = Inr (map (\<lambda>z. exp z / sum_list (map exp zs)) zs)"
  using sum_list_exp_pos [OF assms] by (simp add: softmax_def Let_def)

lemma softmax_sums_to_1:
  assumes "softmax zs = Inr ps"
  shows "sum_list ps = 1 \<and> list_all (\<lambda>p. 0 \<le> p) ps \<and> length ps = length zs"
proof -
  let ?s = "sum_list (map exp zs)"
  from assms have s: "?s \<noteq> 0" and ps: "ps = map (\<lambda>z. exp z / ?s) zs"
    by (auto simp: softmax_def Let_def split: if_splits)
  have "zs \<noteq> []" using s by auto
  then have pos: "0 < ?s" by (rule sum_list_exp_pos)
  have "sum_list (map (\<lambda>z. exp z / ?s) zs) = sum_list (map exp zs) / ?s"
    by (rule sum_list_divide)
  with s have "sum_list ps = 1" by (simp add: ps)
  moreover have "list_all (\<lambda>p. 0 \<le> p) ps"
    using pos by (simp add: ps list_all_iff)
  ultimately show ?thesis by (simp add: ps)
qed

lemma sum_list_all_zero: "list_all (\<lambda>x. x = 0) xs \<Longrightarrow> sum_list xs = (0 :: real)"
  by (induction xs) auto

lemma dot_zero: "list_all (\<lambda>x. x = 0) v \<Longrightarrow> dot w v = 0"
proof -
  assume "list_all (\<lambda>x. x = 0) v"
  then have "list_all (\<lambda>x. x = 0) (map2 (*) w v)"
    by (auto simp: list_all_iff dest: set_zip_rightD)
  then show ?thesis unfolding dot_def by (rule sum_list_all_zero)
qed

lemma map2_snd: "length xs = length ys \<Longrightarrow> map2 (\<lambda>x y. y) xs ys = ys"
  by (induction xs ys rule: list_induct2) auto

lemma decision_function_zero:
  assumes "list_all (\<lambda>x. x = 0) v" and "length (fm_coef m) = length (fm_intercept m)"
  shows "decision_function m v = fm_intercept m"
proof -
  have "map2 (\<lambda>w b. dot w v + b) (fm_coef m) (fm_intercept m) =
        map2 (\<lambda>w b. b) (fm_coef m) (fm_intercept m)"
    by (simp add: dot_zero [OF assms(1)])
  with assms(2) show ?thesis by (simp add: decision_function_def map2_snd)
qed

lemma l2_normalize_zero: "list_all (\<lambda>x. x = 0) v \<Longrightarrow> l2_normalize v = v"
proof -
  assume z: "list_all (\<lambda>x. x = 0) v"
  then have "list_all (\<lambda>x. x = 0) (map (\<lambda>x. x * x) v)" by (simp add: list_all_iff)
  then have "sum_list (map (\<lambda>x. x * x) v) = 0" by (rule sum_list_all_zero)
  then show ?thesis by (simp add: l2_normalize_def)
qed

lemma transform_unrecognized:
  assumes "set (fm_analyzer m texte) \<inter> set (fm_vocabulary m) = {}"
  shows "list_all (\<lambda>x. x = 0) (Vectorizer_transform m texte)"
proof -
  let ?tf = "map2 (\<lambda>term w. sublinear_score (count_list (fm_analyzer m texte) term) * w)
               (fm_vocabulary m) (fm_idf m)"
  have "count_list (fm_analyzer m texte) t = 0" if "t \<in> set (fm_vocabulary m)" for t
    using assms that by (auto simp: count_list_0_iff)
  then have z: "list_all (\<lambda>x. x = 0) ?tf"
    by (auto simp: list_all_iff sublinear_score_def dest: set_zip_leftD)
  from l2_normalize_zero [OF z] z show ?thesis
    by (simp add: Vectorizer_transform_def Let_def)
qed

lemma decision_function_length:
  "well_formed m \<Longrightarrow> length (decision_function m v) = length (fm_categories m)"
  by (simp add: decision_function_def well_formed_def)

lemma predict_proba_returns:
  assumes "well_formed m"
  shows "\<exists>ps. Classifier_predict_proba m v = Inr ps \<and> length ps = length (fm_categories m) \<and>
              sum_list ps = 1 \<and> list_all (\<lambda>p. 0 \<le> p) ps"
proof -
  from assms have "decision_function m v \<noteq> []"
    using decision_function_length [OF assms, of v] by (auto simp: well_formed_def)
  from softmax_returns [OF this] obtain ps where ps: "softmax (decision_function m v) = Inr ps"
    by blast
  from softmax_sums_to_1 [OF ps] ps decision_function_length [OF assms, of v]
  show ?thesis by (simp add: Classifier_predict_proba_def)
qed

lemma length_takeWhile_le_index:
  assumes "j < length xs" and "\<not> P (xs ! j)"
  shows "length (takeWhile P xs) \<le> j"
proof (rule ccontr)
  assume "\<not> length (takeWhile P xs) \<le> j"
  then have lt: "j < length (takeWhile P xs)" by simp
  then have "takeWhile P xs ! j = xs ! j" by (rule takeWhile_nth)
  moreover from lt have "takeWhile P xs ! j \<in> set (takeWhile P xs)" by simp
  then have "P (takeWhile P xs ! j)" by (rule set_takeWhileD [THEN conjunct2])
  ultimately show False using assms(2) by simp
qed

lemma argmax_first:
  assumes "ps \<noteq> []"
  shows "argmax ps < length ps \<and> ps ! argmax ps = Max (set ps) \<and>
         (\<forall>j < length ps. ps ! j = Max (set ps) \<longrightarrow> argmax ps \<le> j)"
proof -
  let ?P = "\<lambda>p. p \<noteq> Max (set ps)"
  have "Max (set ps) \<in> set ps" using assms by simp
  then have "takeWhile ?P ps \<noteq> ps" by (metis (mono_tags, lifting) takeWhile_eq_all_conv)
  then have lt: "length (takeWhile ?P ps) < length ps"
    using length_takeWhile_le [of ?P ps] by (metis le_neq_implies_less takeWhile_eq_take take_all_iff le_refl)
  from nth_length_takeWhile [OF lt] have "ps ! argmax ps = Max (set ps)"
    by (simp add: argmax_def)
  moreover have "argmax ps \<le> j" if "j < length ps" "ps ! j = Max (set ps)" for j
    unfolding argmax_def using that by (intro length_takeWhile_le_index) simp_all
  ultimately show ?thesis using lt by (simp add: argmax_def)
qed

lemma classifier_predict_returns:
  assumes "well_formed m"
  shows "\<exists>ps. Classifier_predict_proba m v = Inr ps \<and> length ps = length (fm_categories m) \<and>
              ps \<noteq> [] \<and> Classifier_predict m v = Inr (fm_categories m ! argmax ps)"
proof -
  from predict_proba_returns [OF assms] obtain ps where
    ps: "Classifier_predict_proba m v = Inr ps" and len: "length ps = length (fm_categories m)"
    by blast
  from assms len have ne: "ps \<noteq> []" by (auto simp: well_formed_def)
  from argmax_first [OF ne] len have "argmax ps < length (fm_categories m)" by simp
  with ps ne have "Classifier_predict m v = Inr (fm_categories m ! argmax ps)"
    by (simp add: Classifier_predict_def)
  with ps len ne show ?thesis by blast
qed

lemma fitted_pipeline_returns:
  assumes "p_pipeline self = Some (fitted_pipeline h m)" and "well_formed m"
  shows "\<exists>ps. Classifier_predict_proba m (Vectorizer_transform m texte) = Inr ps \<and>
              length ps = length (fm_categories m) \<and>
              Predictor_predict self texte =
                Inr \<lparr> classe = fm_categories m ! argmax ps,
                      confiance = py_round1 (float_mul (Max (set ps)) 100),
                      probabilites = zip (fm_categories m) (map (\<lambda>prob. py_round1 (float_mul prob 100)) ps) \<rparr>"
proof -
  let ?v = "Vectorizer_transform m texte"
  from classifier_predict_returns [OF assms(2), of ?v] obtain ps where
    ps: "Classifier_predict_proba m ?v = Inr ps" and len: "length ps = length (fm_categories m)"
    and ne: "ps \<noteq> []" and cl: "Classifier_predict m ?v = Inr (fm_categories m ! argmax ps)"
    by blast
  let ?kvs = "zip (fm_categories m) (map (\<lambda>prob. py_round1 (float_mul prob 100)) ps)"
  from assms(2) have "distinct (fm_categories m)"
    by (simp add: well_formed_def strict_sorted_iff)
  then have "distinct (map fst ?kvs)" using len by simp
  then have dict: "py_dict ?kvs = ?kvs" by (rule py_dict_distinct)
  have "Predictor_predict self texte =
          Inr \<lparr> classe = fm_categories m ! argmax ps,
                confiance = py_round1 (float_mul (Max (set ps)) 100),
                probabilites = py_dict ?kvs \<rparr>"
    by (rule predict_loaded [OF assms(1) _ _ _ ne]) (simp_all add: fitted_pipeline_def ps cl)
  with ps len dict show ?thesis by simp
qed

lemma fitted_pipeline_contract:
  assumes "well_formed m" and "set (fm_categories m) \<subseteq> CLASSES_VALIDES"
  shows "proba_contract (fitted_pipeline h m) texte"
proof -
  let ?v = "Vectorizer_transform m texte"
  from classifier_predict_returns [OF assms(1), of ?v] obtain ps where
    ps: "Classifier_predict_proba m ?v = Inr ps" and len: "length ps = length (fm_categories m)"
    and cl: "Classifier_predict m ?v = Inr (fm_categories m ! argmax ps)"
    by blast
  from predict_proba_returns [OF assms(1), of ?v] ps
  have "sum_list ps = 1" and "list_all (\<lambda>p. 0 \<le> p) ps" by simp_all
  moreover from assms(1) have "distinct (fm_categories m)"
    by (simp add: well_formed_def strict_sorted_iff)
  ultimately show ?thesis
    using ps len cl assms(2) by (simp add: proba_contract_def fitted_pipeline_def)
qed

text \<open>
  Claim C5. A predictor that holds a fitted pipeline returns a prediction result for
  every text, with one percentage per category; no call raises. For a text none of
  whose tokens is in the vocabulary the feature vector is all zero, it is left
  unnormalised (no division by its zero norm), the softmax denominator is not zero, and
  the probabilities are the softmax of the biases alone.
\<close>

theorem predict_never_raises_when_loaded:
  assumes "p_pipeline self = Some (fitted_pipeline h m)" and "well_formed m"
  shows "(\<exists>r. Predictor_predict self texte = Inr r \<and> map fst (probabilites r) = fm_categories m) \<and>
         (set (fm_analyzer m texte) \<inter> set (fm_vocabulary m) = {} \<longrightarrow>
            list_all (\<lambda>x. x = 0) (Vectorizer_transform m texte) \<and>
            pl_predict_proba (fitted_pipeline h m) texte = softmax (fm_intercept m) \<and>
            sum_list (map exp (fm_intercept m)) \<noteq> 0 \<and>
            (\<exists>r. Predictor_predict self texte = Inr r \<and>
                 map snd (probabilites r) =
                   map (\<lambda>b. py_round1 (float_mul (exp b / sum_list (map exp (fm_intercept m))) 100))
                     (fm_intercept m)))"
proof (intro conjI impI)
  from fitted_pipeline_returns [OF assms, of texte] obtain ps where
    ps: "Classifier_predict_proba m (Vectorizer_transform m texte) = Inr ps"
    and len: "length ps = length (fm_categories m)"
    and run: "Predictor_predict self texte =
                Inr \<lparr> classe = fm_categories m ! argmax ps,
                      confiance = py_round1 (float_mul (Max (set ps)) 100),
                      probabilites = zip (fm_categories m) (map (\<lambda>prob. py_round1 (float_mul prob 100)) ps) \<rparr>"
    by blast
  from run len show "\<exists>r. Predictor_predict self texte = Inr r \<and> map fst (probabilites r) = fm_categories m"
    by simp
  assume unk: "set (fm_analyzer m texte) \<inter> set (fm_vocabulary m) = {}"
  from transform_unrecognized [OF unk]
  show zero: "list_all (\<lambda>x. x = 0) (Vectorizer_transform m texte)" .
  from assms(2) have lens: "length (fm_coef m) = length (fm_intercept m)" and ne: "fm_intercept m \<noteq> []"
    by (auto simp: well_formed_def)
  from decision_function_zero [OF zero lens]
  show proba: "pl_predict_proba (fitted_pipeline h m) texte = softmax (fm_intercept m)"
    by (simp add: fitted_pipeline_def Classifier_predict_proba_def)
  from sum_list_exp_pos [OF ne] show "sum_list (map exp (fm_intercept m)) \<noteq> 0" by simp
  from proba ps softmax_returns [OF ne]
  have "ps = map (\<lambda>b. exp b / sum_list (map exp (fm_intercept m))) (fm_intercept m)"
    by (simp add: fitted_pipeline_def)
  with run len
  show "\<exists>r. Predictor_predict self texte = Inr r \<and>
            map snd (probabilites r) =
              map (\<lambda>b. py_round1 (float_mul (exp b / sum_list (map exp (fm_intercept m))) 100)) (fm_intercept m)"
    by (simp add: comp_def)
qed


lemma round_half_even_eqI:
  assumes "of_int k - 1 / 2 < x" and "x < of_int k + 1 / 2"
  shows "round_half_even x = k"
proof -
  have "\<bar>of_int (round_half_even x) - x\<bar> \<le> 1 / 2" by (rule round_half_even_bounds)
  with assms have "\<bar>(of_int (round_half_even x) :: real) - of_int k\<bar> < 1" by linarith
  then have "\<bar>of_int (round_half_even x - k) :: real\<bar> < of_int 1" by simp
  then have "\<bar>round_half_even x - k\<bar> < 1" by (metis of_int_abs of_int_less_iff)
  then show ?thesis by simp
qed

lemma percentage_sixth: "py_round1 (float_mul (1 / 6) 100) = fl (167 / 10)"
proof -
  define x where "x = float_mul (1 / 6) 100"
  have "\<bar>fl (1 / 6 * 100) - 1 / 6 * 100\<bar> \<le> 1 / 2 ^ 47"
    by (rule fl_error_small) simp
  then have "\<bar>x - 50 / 3\<bar> \<le> 1 / 2 ^ 47" by (simp add: x_def float_mul_def)
  moreover have "(1 / 2 ^ 47 :: real) \<le> 1 / 100" by simp
  ultimately have "\<bar>x - 50 / 3\<bar> \<le> 1 / 100" by linarith
  then have "167 - 1 / 2 < x * 10" and "x * 10 < 167 + 1 / 2" by linarith+
  then have "round_half_even (x * 10) = 167" by (intro round_half_even_eqI) simp_all
  then show ?thesis by (simp add: py_round1_def x_def)
qed

lemma percentage_third: "py_round1 (float_mul (1 / 3) 100) = fl (333 / 10)"
proof -
  define x where "x = float_mul (1 / 3) 100"
  have "\<bar>fl (1 / 3 * 100) - 1 / 3 * 100\<bar> \<le> 1 / 2 ^ 47"
    by (rule fl_error_small) simp
  then have "\<bar>x - 100 / 3\<bar> \<le> 1 / 2 ^ 47" by (simp add: x_def float_mul_def)
  moreover have "(1 / 2 ^ 47 :: real) \<le> 1 / 100" by simp
  ultimately have "\<bar>x - 100 / 3\<bar> \<le> 1 / 100" by linarith
  then have "333 - 1 / 2 < x * 10" and "x * 10 < 333 + 1 / 2" by linarith+
  then have "round_half_even (x * 10) = 333" by (intro round_half_even_eqI) simp_all
  then show ?thesis by (simp add: py_round1_def x_def)
qed

theorem predict_never_raises_when_loaded_witness:
  "well_formed demo_model \<and>
   set (fm_analyzer demo_model ''Bonjour'') \<inter> set (fm_vocabulary demo_model) = {} \<and>
   Vectorizer_transform demo_model ''Bonjour'' = [0, 0] \<and>
   pl_predict_proba (fitted_pipeline demo_hyper demo_model) ''Bonjour'' = Inr [1 / 6, 1 / 3, 1 / 3, 1 / 6] \<and>
   Predictor_predict \<lparr> p_pipeline = Some (fitted_pipeline demo_hyper demo_model) \<rparr> ''Bonjour'' =
     Inr \<lparr> classe = ''Information'', confiance = fl (333 / 10),
           probabilites =
             [(''Commande'', fl (167 / 10)), (''Information'', fl (333 / 10)),
              (CHR ''R'' # CHR 0xE9 # ''clamation'', fl (333 / 10)), (''Urgence'', fl (167 / 10))] \<rparr>"
  using predict_never_raises_when_loaded
    [of "\<lparr> p_pipeline = Some (fitted_pipeline demo_hyper demo_model) \<rparr>" demo_hyper demo_model
        "''Bonjour''"]
  by (simp add: well_formed_def demo_model_def Predictor_predict_def check_loaded_def
      fitted_pipeline_def Vectorizer_transform_def l2_normalize_def sublinear_score_def
      Classifier_predict_def Classifier_predict_proba_def decision_function_def dot_def
      softmax_def argmax_def np_max_def py_dict_def percentage_sixth percentage_third)

section \<open>Ties between categories\<close>



section \<open>Saving after a failed fit\<close>

text \<open>
  Claim C9 holds of the specification but not of the code. \<^verbatim>\<open>train\<close> assigns the
  unfitted pipeline to \<^verbatim>\<open>self.pipeline\<close> before it calls \<^verbatim>\<open>fit\<close>. When \<^verbatim>\<open>fit\<close> raises,
  \<^verbatim>\<open>train\<close> raises and leaves \<^verbatim>\<open>self.pipeline\<close> set although no fitted pipeline was
  produced; the test of \<^verbatim>\<open>save\<close> then passes, \<^verbatim>\<open>save\<close> does not raise, and it writes
  that unfitted pipeline to the model path.
\<close>

theorem save_after_failed_fit_writes_unfitted:
  assumes "ModelTrainer_split st sk X y = Inr (X_train, X_test', y_train, y_test')"
    and "Pipeline_fit sk (build_pipeline st) X_train y_train = Inl e"
  shows "fst (ModelTrainer_train st sk self X y) = Inl e \<and>
         t_pipeline (snd (ModelTrainer_train st sk self X y)) = Some (build_pipeline st) \<and>
         ModelTrainer_save st jl fs (snd (ModelTrainer_train st sk self X y)) =
           (Inr (), fs(model_path st \<mapsto> jl_dump jl (build_pipeline st)))"
  using assms by (simp add: ModelTrainer_train_def ModelTrainer_save_def Let_def)

theorem save_after_failed_fit_writes_unfitted_witness:
  "ModelTrainer_split default_settings demo_sklearn [''a'', ''b'', ''c'']
       [''Urgence'', ''Urgence'', ''Urgence''] =
     Inr ([''a'', ''b''], [''c''], [''Urgence'', ''Urgence''], [''Urgence'']) \<and>
   Pipeline_fit demo_sklearn (build_pipeline default_settings) [''a'', ''b'']
       [''Urgence'', ''Urgence''] = Inl ValueError \<and>
   ModelTrainer_save default_settings id_joblib Map.empty
       (snd (ModelTrainer_train default_settings demo_sklearn ModelTrainer_init
               [''a'', ''b'', ''c''] [''Urgence'', ''Urgence'', ''Urgence''])) =
     (Inr (), [model_path default_settings \<mapsto> build_pipeline default_settings]) \<and>
   pl_predict (build_pipeline default_settings) ''Bonjour'' = Inl NotFittedError"
  using save_after_failed_fit_writes_unfitted
    [of default_settings demo_sklearn "[''a'', ''b'', ''c'']" "[''Urgence'', ''Urgence'', ''Urgence'']"
        "[''a'', ''b'']" "[''c'']" "[''Urgence'', ''Urgence'']" "[''Urgence'']" ValueError
        ModelTrainer_init id_joblib Map.empty]
  by (simp add: ModelTrainer_split_def train_test_split_def demo_sklearn_def Pipeline_fit_def
      id_joblib_def build_pipeline_def)

section \<open>Further properties\<close>

text \<open>
  \<^verbatim>\<open>ModelTrainer.save\<close> writes at the configured model path and \<^verbatim>\<open>Predictor.load\<close> reads
  that same path: after a \<^verbatim>\<open>save\<close> of a trainer that holds a pipeline \<open>P\<close>, the file holds
  what joblib dumped for \<open>P\<close>, and \<^verbatim>\<open>load\<close> raises what joblib raises on it or assigns
  what joblib returns for it.
\<close>

theorem save_writes_where_load_reads:
  assumes "t_pipeline tr = Some P"
  shows "ModelTrainer_save st jl fs tr = (Inr (), fs(model_path st \<mapsto> jl_dump jl P)) \<and>
         Predictor_load st jl (snd (ModelTrainer_save st jl fs tr)) self =
           (case jl_load jl (jl_dump jl P) of
              Inl e \<Rightarrow> (Inl e, self)
            | Inr Q \<Rightarrow> (Inr (), self\<lparr> p_pipeline := Some Q \<rparr>))"
  using assms by (simp add: ModelTrainer_save_def Predictor_load_def)

theorem save_writes_where_load_reads_witness:
  "t_pipeline (ModelTrainer_init\<lparr> t_pipeline := Some demo_pipeline \<rparr>) = Some demo_pipeline \<and>
   ModelTrainer_save default_settings id_joblib Map.empty
       (ModelTrainer_init\<lparr> t_pipeline := Some demo_pipeline \<rparr>) =
     (Inr (), [model_path default_settings \<mapsto> demo_pipeline]) \<and>
   Predictor_load default_settings id_joblib [model_path default_settings \<mapsto> demo_pipeline]
       Predictor_init =
     (Inr (), \<lparr> p_pipeline = Some demo_pipeline \<rparr>)"
  using save_writes_where_load_reads
    [of "ModelTrainer_init\<lparr> t_pipeline := Some demo_pipeline \<rparr>" demo_pipeline default_settings
        id_joblib Map.empty Predictor_init]
  by (simp add: id_joblib_def Predictor_init_def ModelTrainer_save_def Predictor_load_def
      ModelTrainer_init_def)

text \<open>
  The endpoint \<^verbatim>\<open>POST /predict\<close> answers 503 when no model is loaded and never calls
  \<^verbatim>\<open>predict\<close> then; with a model it answers 500 or a response that carries the
  predictor's category, confidence and probabilities unchanged.
\<close>

theorem predict_endpoint_unavailable_without_model:
  "(\<not> is_loaded (state_predictor app) \<longrightarrow>
      predict_endpoint app body_message = Inl (HTTPException 503)) \<and>
   (is_loaded (state_predictor app) \<longrightarrow>
      predict_endpoint app body_message = Inl (HTTPException 500) \<or>
      (\<exists>result a rc. Predictor_predict (state_predictor app) body_message = Inr result \<and>
         map_of ACTIONS (classe result) = Some a \<and>
         map_of REPONSES_AUTO (classe result) = Some rc \<and>
         predict_endpoint app body_message =
           Inr \<lparr> dr_message = body_message, dr_classe = classe result,
                 dr_confiance = confiance result, dr_action_automatique = a,
                 dr_reponse_client = rc, dr_probabilites = probabilites result \<rparr>))"
  by (auto simp: predict_endpoint_def Let_def split: sum.splits option.splits)

theorem predict_endpoint_unavailable_without_model_witness:
  "\<not> is_loaded (state_predictor \<lparr> state_predictor = Predictor_init \<rparr>) \<and>
   predict_endpoint \<lparr> state_predictor = Predictor_init \<rparr> ''Commande de riz'' =
     Inl (HTTPException 503) \<and>
   is_loaded (state_predictor \<lparr> state_predictor = \<lparr> p_pipeline = Some demo_pipeline \<rparr> \<rparr>) \<and>
   predict_endpoint \<lparr> state_predictor = \<lparr> p_pipeline = Some demo_pipeline \<rparr> \<rparr> ''Commande de riz'' =
     Inr \<lparr> dr_message = ''Commande de riz'', dr_classe = ''Commande'', dr_confiance = fl (251 / 10),
           dr_action_automatique = ''Commande enregistree et notification envoyee.'',
           dr_reponse_client = ''Bonjour ! Votre commande a bien ete enregistree.'',
           dr_probabilites =
             [(''Commande'', fl (251 / 10)), (''Information'', fl (251 / 10)),
              (CHR ''R'' # CHR 0xE9 # ''clamation'', fl (251 / 10)), (''Urgence'', fl (249 / 10))] \<rparr>"
  using predict_endpoint_unavailable_without_model
      [of "\<lparr> state_predictor = Predictor_init \<rparr>" "''Commande de riz''"]
    predict_endpoint_unavailable_without_model
      [of "\<lparr> state_predictor = \<lparr> p_pipeline = Some demo_pipeline \<rparr> \<rparr>" "''Commande de riz''"]
  by (simp add: is_loaded_def Predictor_init_def predict_endpoint_def demo_predict
      ACTIONS_def REPONSES_AUTO_def)

end
